theory Spec2Isabelle
  imports Main "HOL-Library.Finite_Map"
begin

section \<open>Values, requests and the registry\<close>

text \<open>
  The modules work on the Python values that \<open>requests\<close> decodes from JSON and that
  Ansible hands over as parameters: None, integers, strings, lists and dicts. A dict is
  a finite map, so that HOL equality on \<open>json\<close> is Python's \<open>==\<close>: element by
  element on lists, key set and values on dicts, whatever the order of insertion.
  Python's \<open>bool\<close> is a subclass of \<open>int\<close> with \<open>True == 1\<close> and
  \<open>False == 0\<close>; values are kept up to \<open>==\<close>, so the two booleans are the integers
  1 and 0. Floating-point numbers are not modelled.
\<close>

datatype json =
    JNull
  | JInt int
  | JStr string
  | JList "json list"
  | JDict "(string, json) fmap"

abbreviation (input) JFalse :: json where "JFalse \<equiv> JInt 0"
abbreviation (input) JTrue :: json where "JTrue \<equiv> JInt 1"

text \<open>A dict literal \<open>{k1: v1, ...}\<close>.\<close>

definition dict :: "(string \<times> json) list \<Rightarrow> json" where
  "dict kvs = JDict (fmap_of_list kvs)"

datatype pyerror = KeyError | TypeError | AttributeError | JSONDecodeError

text \<open>\<open>d[k]\<close> for a string key: only a dict accepts it, and only when the key is there.\<close>

fun subscript :: "json \<Rightarrow> string \<Rightarrow> pyerror + json" where
  "subscript (JDict m) k = (case fmlookup m k of None \<Rightarrow> Inl KeyError | Some v \<Rightarrow> Inr v)"
| "subscript _ k = Inl TypeError"

text \<open>
  The HTTP transport. Every URL starts with the configured \<open>api_url\<close> and carries the
  credentials and the TLS flag; what distinguishes two calls is the method, the endpoint
  with the values formatted into it, and the JSON payload.
\<close>

datatype http_method = GET | POST | PUT | DELETE

datatype endpoint =
    Projects string
  | Retentions
  | Retention json
  | ScanAllSchedule
  | ImmutableTagRules json
  | ImmutableTagRule json json

record request =
  meth :: http_method
  target :: endpoint
  sent_json :: "json option"

text \<open>
  Of a response the modules read \<open>status_code\<close>, \<open>headers["content-length"]\<close>
  (a KeyError when the header is missing), \<open>json()\<close> (which raises when the body is
  not JSON) and \<open>text\<close>.
\<close>

record response =
  status_code :: int
  content_length :: "string option"
  json_body :: "json option"
  body_text :: string

text \<open>
  The registry is any deterministic machine answering one request at a time. A run
  carries the registry's state and the requests it has issued so far, in order.
\<close>

type_synonym 'w registry = "request \<Rightarrow> 'w \<Rightarrow> response \<times> 'w"

record 'w state =
  world :: 'w
  issued :: "request list"

text \<open>
  What a module hands back: \<open>changed\<close>, the \<open>diff\<close> of \<open>before\<close> and \<open>after\<close>, and
  the \<open>retention_policy\<close> of the retention module.
\<close>

record result =
  changed :: bool
  diff :: "(json \<times> json) option"
  retention_policy :: "json option"

text \<open>
  The messages of \<open>fail_json\<close>: a fixed text, the unknown status code with the body, or
  what \<open>requestParse\<close> of the absent base module makes of a response.
\<close>

datatype message =
    Msg string
  | UnknownStatus int string
  | RequestParse response

text \<open>
  A run ends with \<open>exit_json\<close>, with \<open>fail_json\<close>, or with an exception nobody catches.
\<close>

datatype outcome =
    Exit result
  | Fail message
  | Raise pyerror

type_synonym ('w, 'a) prog = "'w state \<Rightarrow> (outcome + 'a) \<times> 'w state"

definition return :: "'a \<Rightarrow> ('w, 'a) prog" where
  "return x st = (Inr x, st)"

definition stop :: "outcome \<Rightarrow> ('w, 'a) prog" where
  "stop out st = (Inl out, st)"

definition seq :: "('w, 'a) prog \<Rightarrow> ('a \<Rightarrow> ('w, 'b) prog) \<Rightarrow> ('w, 'b) prog" where
  "seq m f st = (case m st of (Inl out, st') \<Rightarrow> (Inl out, st') | (Inr x, st') \<Rightarrow> f x st')"

text \<open>A Python expression that may raise.\<close>

definition attempt :: "pyerror + 'a \<Rightarrow> ('w, 'a) prog" where
  "attempt v = (case v of Inl e \<Rightarrow> stop (Raise e) | Inr x \<Rightarrow> return x)"

text \<open>\<open>requests.get\<close>, \<open>requests.post\<close>, \<open>requests.put\<close>, \<open>requests.delete\<close>.\<close>

definition send :: "'w registry \<Rightarrow> request \<Rightarrow> ('w, response) prog" where
  "send srv req st =
     (let (resp, w) = srv req (world st)
      in (Inr resp, \<lparr>world = w, issued = issued st @ [req]\<rparr>))"

definition get_request :: "endpoint \<Rightarrow> request" where
  "get_request ep = \<lparr>meth = GET, target = ep, sent_json = None\<rparr>"

definition put_request :: "endpoint \<Rightarrow> json \<Rightarrow> request" where
  "put_request ep js = \<lparr>meth = PUT, target = ep, sent_json = Some js\<rparr>"

definition post_request :: "endpoint \<Rightarrow> json \<Rightarrow> request" where
  "post_request ep js = \<lparr>meth = POST, target = ep, sent_json = Some js\<rparr>"

definition delete_request :: "endpoint \<Rightarrow> request" where
  "delete_request ep = \<lparr>meth = DELETE, target = ep, sent_json = None\<rparr>"

definition requests_get :: "'w registry \<Rightarrow> endpoint \<Rightarrow> ('w, response) prog" where
  "requests_get srv ep = send srv (get_request ep)"

definition requests_post :: "'w registry \<Rightarrow> endpoint \<Rightarrow> json \<Rightarrow> ('w, response) prog" where
  "requests_post srv ep js = send srv (post_request ep js)"

definition requests_put :: "'w registry \<Rightarrow> endpoint \<Rightarrow> json \<Rightarrow> ('w, response) prog" where
  "requests_put srv ep js = send srv (put_request ep js)"

definition requests_delete :: "'w registry \<Rightarrow> endpoint \<Rightarrow> ('w, response) prog" where
  "requests_delete srv ep = send srv (delete_request ep)"

text \<open>\<open>request.json()\<close>.\<close>

definition json_of :: "response \<Rightarrow> ('w, json) prog" where
  "json_of resp = (case json_body resp of None \<Rightarrow> stop (Raise JSONDecodeError) | Some js \<Rightarrow> return js)"

text \<open>The state a module starts in: nothing issued yet.\<close>

definition start :: "'w \<Rightarrow> 'w state" where
  "start w = \<lparr>world = w, issued = []\<rparr>"

text \<open>The module body falls through to the closing \<open>exit_json(**self.result)\<close>.\<close>

definition run_module :: "('w, result) prog \<Rightarrow> 'w \<Rightarrow> outcome \<times> 'w state" where
  "run_module m w =
     (case m (start w) of
        (Inl out, st) \<Rightarrow> (out, st)
      | (Inr r, st) \<Rightarrow> (Exit r, st))"

definition mutating :: "request \<Rightarrow> bool" where
  "mutating req = (meth req = POST \<or> meth req = PUT \<or> meth req = DELETE)"

text \<open>The mutating calls among the requests issued.\<close>

definition writes :: "'w state \<Rightarrow> request list" where
  "writes st = filter mutating (issued st)"

subsection \<open>The base module\<close>

text \<open>
  Modelled from the spec: \<open>setChanges\<close> of the absent base module
  (\<open>module_utils/base.py\<close>). The spec's result reporter "accumulates the changed flag
  and before/after diff payload", and a preview "records before/after into the result
  ... terminal with changed=true".
\<close>

definition setChanges :: "json \<Rightarrow> json \<Rightarrow> result \<Rightarrow> result" where
  "setChanges before0 after r = r\<lparr>changed := True, diff := Some (before0, after)\<rparr>"

text \<open>\<open>self.result = dict(changed=False)\<close>.\<close>

definition result0 :: result where
  "result0 = \<lparr>changed = False, diff = None, retention_policy = None\<rparr>"

section \<open>harbor_scan_all_schedule\<close>

record scan_params =
  schedule_cron :: string
  type_param :: "string option"

text \<open>The argument spec: \<open>type\<close> is optional and defaults to \<open>'Custom'\<close>.\<close>

definition scan_type :: "scan_params \<Rightarrow> string" where
  "scan_type p = (case type_param p of None \<Rightarrow> ''Custom'' | Some t \<Rightarrow> t)"

definition getSchedule :: "'w registry \<Rightarrow> ('w, json) prog" where
  "getSchedule srv =
     seq (requests_get srv ScanAllSchedule) (\<lambda>schedule_request.
       if status_code schedule_request = 200 then
         (case content_length schedule_request of
            None \<Rightarrow> stop (Raise KeyError)
          | Some l \<Rightarrow>
              if l = ''0'' then return (dict [])
              else seq (json_of schedule_request) (\<lambda>schedule.
                   seq (attempt (subscript schedule ''schedule'')) (\<lambda>s.
                   return (dict [(''schedule'', s)]))))
       else seq (json_of schedule_request) (\<lambda>schedule.
            seq (attempt (subscript schedule ''schedule'')) (\<lambda>s.
            return (dict [(''schedule'', s)]))))"

definition putSchedule :: "'w registry \<Rightarrow> json \<Rightarrow> ('w, unit) prog" where
  "putSchedule srv payload =
     seq (requests_put srv ScanAllSchedule payload) (\<lambda>put_schedule_request.
       if status_code put_schedule_request \<noteq> 200
       then stop (Fail (RequestParse put_schedule_request))
       else return ())"

definition constructDesired :: "string \<Rightarrow> string \<Rightarrow> json" where
  "constructDesired cron ty =
     dict [(''schedule'', dict [(''cron'', JStr cron), (''type'', JStr ty)])]"

definition scan_body :: "'w registry \<Rightarrow> scan_params \<Rightarrow> bool \<Rightarrow> ('w, result) prog" where
  "scan_body srv p check_mode =
     (let desired = constructDesired (schedule_cron p) (scan_type p) in
      seq (getSchedule srv) (\<lambda>before0.
        if desired \<noteq> before0 then
          if check_mode then return (setChanges before0 desired result0)
          else seq (putSchedule srv desired) (\<lambda>_.
               seq (getSchedule srv) (\<lambda>after.
               return (setChanges before0 after result0)))
        else return result0))"

definition HarborScanAllScheduleModule :: "'w registry \<Rightarrow> scan_params \<Rightarrow> bool \<Rightarrow> 'w \<Rightarrow> outcome \<times> 'w state" where
  "HarborScanAllScheduleModule srv p check_mode = run_module (scan_body srv p check_mode)"

subsection \<open>What the modules take from the absent base module\<close>

text \<open>Python's truth value of a decoded value, as \<open>not project\<close> tests it.\<close>

fun truthy :: "json \<Rightarrow> bool" where
  "truthy JNull = False"
| "truthy (JInt n) = (n \<noteq> 0)"
| "truthy (JStr s) = (s \<noteq> [])"
| "truthy (JList xs) = (xs \<noteq> [])"
| "truthy (JDict m) = (m \<noteq> fmempty)"

text \<open>
  Modelled from the spec: \<open>getProjectByName\<close> of the absent base module. The spec
  lists \<open>GET /projects?name=\<close> as the call that resolves a project to its id and
  metadata, and a project that does not exist as the NotFound case. The registry
  answers with the list of matching projects; the project is its first element, and
  there is none (\<open>None\<close>) when the list is empty or the body is no list.
\<close>

definition getProjectByName :: "'w registry \<Rightarrow> string \<Rightarrow> ('w, json option) prog" where
  "getProjectByName srv name =
     seq (requests_get srv (Projects name)) (\<lambda>r.
       case json_body r of
         Some (JList (project # _)) \<Rightarrow> return (Some project)
       | _ \<Rightarrow> return None)"

text \<open>
  Modelled from the spec: \<open>errorHandlingHttpRequest\<close> of the absent base module, which
  the tag-immutability module calls after each POST and DELETE. The spec's taxonomy:
  401, 403 and 500 have fixed messages, any other failure carries the status code and
  the body. The messages are those of \<open>errorHandlingPostOrPutRequest\<close> below.
\<close>

definition errorHandlingHttpRequest :: "response \<Rightarrow> ('w, unit) prog" where
  "errorHandlingHttpRequest request =
     (if status_code request = 200 \<or> status_code request = 201 then return ()
      else if status_code request = 401 then stop (Fail (Msg ''User need to log in first.''))
      else if status_code request = 403
        then stop (Fail (Msg ''User does not have permission of admin role.''))
      else if status_code request = 500 then stop (Fail (Msg ''Unexpected internal errors.''))
      else stop (Fail (UnknownStatus (status_code request) (body_text request))))"

section \<open>harbor_retention\<close>

record retention_params =
  project :: string
  rules :: "json list"
  retention_cron :: string
  force :: bool

definition createDesiredRetentionPolicy :: "retention_params \<Rightarrow> json \<Rightarrow> json" where
  "createDesiredRetentionPolicy p project_id =
     dict [(''algorithm'', JStr ''or''),
           (''rules'', JList (rules p)),
           (''scope'', dict [(''level'', JStr ''project''), (''ref'', project_id)]),
           (''trigger'', dict [(''kind'', JStr ''Schedule''),
                               (''settings'', dict [(''cron'', JStr (retention_cron p))])])]"

definition getRetentionPolicy :: "'w registry \<Rightarrow> json \<Rightarrow> ('w, response) prog" where
  "getRetentionPolicy srv project_retention_id =
     seq (requests_get srv (Retention project_retention_id)) (\<lambda>request.
       if status_code request \<noteq> 200 then stop (Fail (RequestParse request))
       else return request)"

definition errorHandlingPostOrPutRequest :: "response \<Rightarrow> ('w, unit) prog" where
  "errorHandlingPostOrPutRequest request =
     (if status_code request = 200 \<or> status_code request = 201 then return ()
      else if status_code request = 401 then stop (Fail (Msg ''User need to log in first.''))
      else if status_code request = 403
        then stop (Fail (Msg ''User does not have permission of admin role.''))
      else if status_code request = 500 then stop (Fail (Msg ''Unexpected internal errors.''))
      else stop (Fail (UnknownStatus (status_code request) (body_text request))))"

text \<open>\<open>s in t\<close> for two strings: \<open>s\<close> occurs in \<open>t\<close>.\<close>

fun starts_with :: "string \<Rightarrow> string \<Rightarrow> bool" where
  "starts_with [] t = True"
| "starts_with (c # s) [] = False"
| "starts_with (c # s) (d # t) = (c = d \<and> starts_with s t)"

fun occurs_in :: "string \<Rightarrow> string \<Rightarrow> bool" where
  "occurs_in s [] = (s = [])"
| "occurs_in s (d # t) = (starts_with s (d # t) \<or> occurs_in s t)"

text \<open>
  \<open>k in v\<close> for a string \<open>k\<close>: a key of a dict, an element of a list, a part of a
  string; None and numbers are not iterable.
\<close>

fun py_in :: "string \<Rightarrow> json \<Rightarrow> pyerror + bool" where
  "py_in k (JDict m) = Inr (k |\<in>| fmdom m)"
| "py_in k (JList xs) = Inr (JStr k \<in> set xs)"
| "py_in k (JStr s) = Inr (occurs_in k s)"
| "py_in k _ = Inl TypeError"

text \<open>
  \<open>self.module.fail_json(msg="Project not found", **self.self.result)\<close>: the arguments
  are evaluated before the call, and the object has no attribute \<open>self\<close>, so the
  statement raises AttributeError and \<open>fail_json\<close> is never entered.
\<close>

definition project_not_found :: "('w, 'a) prog" where
  "project_not_found = stop (Raise AttributeError)"

text \<open>\<open>project["metadata"]["retention_id"]\<close> after the POST; \<open>None\<close> is not subscriptable.\<close>

definition retention_id_of :: "json option \<Rightarrow> pyerror + json" where
  "retention_id_of found =
     (case found of
        None \<Rightarrow> Inl TypeError
      | Some pr \<Rightarrow>
          (case subscript pr ''metadata'' of
             Inl e \<Rightarrow> Inl e
           | Inr metadata \<Rightarrow> subscript metadata ''retention_id''))"

text \<open>
  The fetch of the current state (lines 148 to 160): the project, its id, and, when its
  metadata name a retention policy, the identifier of that policy and the policy as the
  registry returns it. Nothing is taken out of the fetched policy.
\<close>

definition retention_current ::
  "'w registry \<Rightarrow> retention_params \<Rightarrow> ('w, json \<times> (json \<times> json) option) prog" where
  "retention_current srv p =
     seq (getProjectByName srv (project p)) (\<lambda>found.
       case found of
         None \<Rightarrow> project_not_found
       | Some pr \<Rightarrow>
           if \<not> truthy pr then project_not_found
           else
             seq (attempt (subscript pr ''project_id'')) (\<lambda>project_id.
             seq (attempt (subscript pr ''metadata'')) (\<lambda>metadata.
             seq (attempt (py_in ''retention_id'' metadata)) (\<lambda>has_policy.
               if has_policy
               then
                 seq (attempt (subscript metadata ''retention_id'')) (\<lambda>project_retention_id.
                 seq (getRetentionPolicy srv project_retention_id) (\<lambda>before_request.
                 seq (json_of before_request) (\<lambda>before0.
                   return (project_id, Some (project_retention_id, before0)))))
               else return (project_id, None)))))"

text \<open>The branch of a project that has a retention policy (lines 162 to 184).\<close>

definition retention_update ::
  "'w registry \<Rightarrow> retention_params \<Rightarrow> bool \<Rightarrow> json \<Rightarrow> json \<Rightarrow> json \<Rightarrow> ('w, result) prog" where
  "retention_update srv p check_mode desired_retention_policy project_retention_id before0 =
     (if \<not> force p \<and> before0 = desired_retention_policy
      then stop (Exit (result0\<lparr>changed := False\<rparr>))
      else if check_mode
      then return (setChanges before0 desired_retention_policy result0)
      else
        seq (requests_put srv (Retention project_retention_id) desired_retention_policy)
          (\<lambda>set_request.
        seq (errorHandlingPostOrPutRequest set_request) (\<lambda>_.
        seq (getRetentionPolicy srv project_retention_id) (\<lambda>after_request.
        seq (json_of after_request) (\<lambda>after.
          if before0 \<noteq> after then return (setChanges before0 after result0)
          else return result0)))))"

text \<open>The branch of a project that has none yet (lines 186 to 205).\<close>

definition retention_create ::
  "'w registry \<Rightarrow> retention_params \<Rightarrow> bool \<Rightarrow> json \<Rightarrow> ('w, result) prog" where
  "retention_create srv p check_mode desired_retention_policy =
     (if check_mode
      then return (result0\<lparr>retention_policy := Some desired_retention_policy, changed := True\<rparr>)
      else
        seq (requests_post srv Retentions desired_retention_policy)
          (\<lambda>create_retentions_request.
        seq (errorHandlingPostOrPutRequest create_retentions_request) (\<lambda>_.
        seq (getProjectByName srv (project p)) (\<lambda>project2.
        seq (attempt (retention_id_of project2)) (\<lambda>project_retention_id.
        seq (getRetentionPolicy srv project_retention_id) (\<lambda>after_request.
        seq (json_of after_request) (\<lambda>after.
          return (result0\<lparr>retention_policy := Some after, changed := True\<rparr>))))))))"

definition retention_body :: "'w registry \<Rightarrow> retention_params \<Rightarrow> bool \<Rightarrow> ('w, result) prog" where
  "retention_body srv p check_mode =
     seq (retention_current srv p) (\<lambda>(project_id, current).
       case current of
         Some (project_retention_id, before0) \<Rightarrow>
           retention_update srv p check_mode (createDesiredRetentionPolicy p project_id)
             project_retention_id before0
       | None \<Rightarrow>
           retention_create srv p check_mode (createDesiredRetentionPolicy p project_id))"

definition HarborRetentionModule ::
  "'w registry \<Rightarrow> retention_params \<Rightarrow> bool \<Rightarrow> 'w \<Rightarrow> outcome \<times> 'w state" where
  "HarborRetentionModule srv p check_mode = run_module (retention_body srv p check_mode)"

section \<open>harbor_tag_immutability\<close>

record selector =
  kind :: string
  pattern :: string

record tag_immutability_object =
  repository :: selector
  tag :: selector

record tag_params =
  tag_project :: string
  tag_immutability_list :: "tag_immutability_object list"

definition createDesiredTagImmutability :: "tag_immutability_object \<Rightarrow> json \<Rightarrow> json" where
  "createDesiredTagImmutability tag_immutability_object project_id =
     dict [(''disabled'', JFalse),
           (''action'', JStr ''immutable''),
           (''scope_selectors'',
              dict [(''repository'',
                 JList [dict [(''kind'', JStr ''doublestar''),
                              (''decoration'', JStr (kind (repository tag_immutability_object))),
                              (''pattern'', JStr (pattern (repository tag_immutability_object)))]])]),
           (''tag_selectors'',
              JList [dict [(''kind'', JStr ''doublestar''),
                           (''decoration'', JStr (kind (tag tag_immutability_object))),
                           (''pattern'', JStr (pattern (tag tag_immutability_object)))]]),
           (''project_id'', project_id),
           (''priority'', JInt 0),
           (''template'', JStr ''immutable_template'')]"

definition createDesiredTagImmutabilityList :: "tag_params \<Rightarrow> json \<Rightarrow> json list" where
  "createDesiredTagImmutabilityList p project_id =
     map (\<lambda>tag_immutability_object. createDesiredTagImmutability tag_immutability_object project_id)
       (tag_immutability_list p)"

definition getTagImmutabilityList :: "'w registry \<Rightarrow> json \<Rightarrow> ('w, response) prog" where
  "getTagImmutabilityList srv project_id =
     seq (requests_get srv (ImmutableTagRules project_id)) (\<lambda>request.
       if status_code request \<noteq> 200 then stop (Fail (RequestParse request))
       else return request)"

text \<open>
  One round of the loop of \<open>formatGetTagImmutabilityList\<close>: \<open>pop("id")\<close> takes the
  identifier out of the item and hands it over, then three keys are overwritten. Only a
  dict has a \<open>pop\<close> that takes a string.
\<close>

fun format_item :: "json \<Rightarrow> json \<Rightarrow> pyerror + (json \<times> json)" where
  "format_item project_id (JDict m) =
     (case fmlookup m ''id'' of
        None \<Rightarrow> Inl KeyError
      | Some i \<Rightarrow>
          Inr (i, JDict (fmupd ''disabled'' JFalse
                        (fmupd ''priority'' (JInt 0)
                        (fmupd ''project_id'' project_id
                        (fmdrop ''id'' m))))))"
| "format_item project_id (JList xs) = Inl TypeError"
| "format_item project_id _ = Inl AttributeError"

fun format_items :: "json \<Rightarrow> json list \<Rightarrow> pyerror + (json \<times> json) list" where
  "format_items project_id [] = Inr []"
| "format_items project_id (x # xs) =
     (case format_item project_id x of
        Inl e \<Rightarrow> Inl e
      | Inr ic \<Rightarrow>
          (case format_items project_id xs of
             Inl e \<Rightarrow> Inl e
           | Inr rest \<Rightarrow> Inr (ic # rest)))"

text \<open>
  \<open>formatGetTagImmutabilityList\<close> rewrites the fetched value in place and fills the list
  of identifiers, position by position; here it returns both. The fetched value is a
  list of rules. Of the other values, None and a number have no \<open>len\<close>; a string and a
  dict have one, and the loop fails at their first position unless they are empty.
\<close>

fun formatGetTagImmutabilityList :: "json \<Rightarrow> json \<Rightarrow> pyerror + (json \<times> json list)" where
  "formatGetTagImmutabilityList (JList xs) project_id =
     (case format_items project_id xs of
        Inl e \<Rightarrow> Inl e
      | Inr ics \<Rightarrow> Inr (JList (map snd ics), map fst ics))"
| "formatGetTagImmutabilityList (JStr s) project_id =
     (if s = [] then Inr (JStr [], []) else Inl AttributeError)"
| "formatGetTagImmutabilityList (JDict m) project_id =
     (if m = fmempty then Inr (JDict fmempty, []) else Inl KeyError)"
| "formatGetTagImmutabilityList _ project_id = Inl TypeError"

text \<open>
  The three list comprehensions of lines 220 to 225, on lists:
  \<open>[x for x in desired if x not in before]\<close>,
  \<open>[x for x in range(len(before)) if before[x] not in desired]\<close> and
  \<open>[ids[x] for x in keys]\<close>.
\<close>

definition to_add :: "json list \<Rightarrow> json list \<Rightarrow> json list" where
  "to_add desired current = filter (\<lambda>x. x \<notin> set current) desired"

definition to_delete_keys :: "json list \<Rightarrow> json list \<Rightarrow> nat list" where
  "to_delete_keys desired current =
     filter (\<lambda>x. current ! x \<notin> set desired) [0 ..< length current]"

definition to_delete_ids :: "json list \<Rightarrow> nat list \<Rightarrow> json list" where
  "to_delete_ids ids keys = map (\<lambda>x. ids ! x) keys"

text \<open>
  The same on the value that \<open>formatGetTagImmutabilityList\<close> left in \<open>before\<close>. When
  it is an empty string or an empty dict, \<open>x not in before\<close> raises TypeError for a
  dict \<open>x\<close>, and \<open>range(len(before))\<close> is empty.
\<close>

fun tag_immutabilities_to_add :: "json list \<Rightarrow> json \<Rightarrow> pyerror + json list" where
  "tag_immutabilities_to_add desired (JList current) = Inr (to_add desired current)"
| "tag_immutabilities_to_add desired _ = (if desired = [] then Inr [] else Inl TypeError)"

fun tag_immutabilities_to_delete_keys :: "json list \<Rightarrow> json \<Rightarrow> nat list" where
  "tag_immutabilities_to_delete_keys desired (JList current) = to_delete_keys desired current"
| "tag_immutabilities_to_delete_keys desired _ = []"

fun createTagImmutabilities :: "'w registry \<Rightarrow> json list \<Rightarrow> json \<Rightarrow> ('w, unit) prog" where
  "createTagImmutabilities srv [] project_id = return ()"
| "createTagImmutabilities srv (tag_immutability # rest) project_id =
     seq (requests_post srv (ImmutableTagRules project_id) tag_immutability) (\<lambda>set_request.
     seq (errorHandlingHttpRequest set_request) (\<lambda>_.
     createTagImmutabilities srv rest project_id))"

fun deleteTagImmutabilities :: "'w registry \<Rightarrow> json list \<Rightarrow> json \<Rightarrow> ('w, unit) prog" where
  "deleteTagImmutabilities srv [] project_id = return ()"
| "deleteTagImmutabilities srv (tag_immutability_id # rest) project_id =
     seq (requests_delete srv (ImmutableTagRule project_id tag_immutability_id)) (\<lambda>set_request.
     seq (errorHandlingHttpRequest set_request) (\<lambda>_.
     deleteTagImmutabilities srv rest project_id))"

text \<open>Fetching and formatting, as done before the comparison and again after the writes.\<close>

definition fetch_formatted :: "'w registry \<Rightarrow> json \<Rightarrow> ('w, json \<times> json list) prog" where
  "fetch_formatted srv project_id =
     seq (getTagImmutabilityList srv project_id) (\<lambda>request.
     seq (json_of request) (\<lambda>fetched.
     attempt (formatGetTagImmutabilityList fetched project_id)))"

text \<open>
  The fetch of the current state (lines 195 to 207): the project's id, the formatted
  rules and the identifiers taken out of them.
\<close>

definition tag_current :: "'w registry \<Rightarrow> tag_params \<Rightarrow> ('w, json \<times> json \<times> json list) prog" where
  "tag_current srv p =
     seq (getProjectByName srv (tag_project p)) (\<lambda>found.
       case found of
         None \<Rightarrow> project_not_found
       | Some pr \<Rightarrow>
           if \<not> truthy pr then project_not_found
           else
             seq (attempt (subscript pr ''project_id'')) (\<lambda>project_id.
             seq (fetch_formatted srv project_id) (\<lambda>(before0, before_tag_immutability_ids).
               return (project_id, before0, before_tag_immutability_ids))))"

text \<open>The apply branch (lines 220 to 239).\<close>

definition tag_apply ::
  "'w registry \<Rightarrow> json \<Rightarrow> json list \<Rightarrow> json \<Rightarrow> json list \<Rightarrow> ('w, result) prog" where
  "tag_apply srv project_id desired_tag_immutability_list before0 before_tag_immutability_ids =
     seq (attempt (tag_immutabilities_to_add desired_tag_immutability_list before0))
       (\<lambda>tag_immutabilities_to_add.
     seq (createTagImmutabilities srv tag_immutabilities_to_add project_id) (\<lambda>_.
     seq (deleteTagImmutabilities srv
            (to_delete_ids before_tag_immutability_ids
               (tag_immutabilities_to_delete_keys desired_tag_immutability_list before0))
            project_id) (\<lambda>_.
     seq (fetch_formatted srv project_id) (\<lambda>(after, after_tag_immutability_ids).
       if before0 \<noteq> after then return (setChanges before0 after result0)
       else return (result0\<lparr>changed := False\<rparr>)))))"

text \<open>The comparison and the three ways on from it (lines 209 to 239).\<close>

definition tag_reconcile ::
  "'w registry \<Rightarrow> bool \<Rightarrow> json \<Rightarrow> json list \<Rightarrow> json \<Rightarrow> json list \<Rightarrow> ('w, result) prog" where
  "tag_reconcile srv check_mode project_id desired_tag_immutability_list before0
       before_tag_immutability_ids =
     (if before0 = JList desired_tag_immutability_list
      then stop (Exit (result0\<lparr>changed := False\<rparr>))
      else if check_mode
      then return (setChanges before0 (JList desired_tag_immutability_list) result0)
      else tag_apply srv project_id desired_tag_immutability_list before0
             before_tag_immutability_ids)"

definition tag_body :: "'w registry \<Rightarrow> tag_params \<Rightarrow> bool \<Rightarrow> ('w, result) prog" where
  "tag_body srv p check_mode =
     seq (tag_current srv p) (\<lambda>(project_id, before0, before_tag_immutability_ids).
       tag_reconcile srv check_mode project_id (createDesiredTagImmutabilityList p project_id)
         before0 before_tag_immutability_ids)"

definition HarborTagImmutabilityModule ::
  "'w registry \<Rightarrow> tag_params \<Rightarrow> bool \<Rightarrow> 'w \<Rightarrow> outcome \<times> 'w state" where
  "HarborTagImmutabilityModule srv p check_mode = run_module (tag_body srv p check_mode)"

section \<open>Vocabulary of the properties\<close>

text \<open>A program that issues no mutating call, whatever the state it starts in.\<close>

definition reads_only :: "('w, 'a) prog \<Rightarrow> bool" where
  "reads_only m = (\<forall>st. writes (snd (m st)) = writes st)"

text \<open>
  A program that only adds to the requests issued, and only requests satisfying \<open>P\<close>.
\<close>

definition issues :: "(request \<Rightarrow> bool) \<Rightarrow> ('w, 'a) prog \<Rightarrow> bool" where
  "issues P m = (\<forall>st. \<exists>more. issued (snd (m st)) = issued st @ more \<and> list_all P more)"

text \<open>
  A registry that answers from a script: the responses it will give, in order, and a
  plain 404 once the script is used up. It stands for one observed exchange.
\<close>

definition not_found :: response where
  "not_found = \<lparr>status_code = 404, content_length = None, json_body = None, body_text = []\<rparr>"

fun scripted :: "response list registry" where
  "scripted req [] = (not_found, [])"
| "scripted req (r # rs) = (r, rs)"

definition ok_json :: "json \<Rightarrow> response" where
  "ok_json js = \<lparr>status_code = 200, content_length = Some ''2'', json_body = Some js, body_text = []\<rparr>"

definition ok_empty :: response where
  "ok_empty = \<lparr>status_code = 200, content_length = Some ''0'', json_body = None, body_text = []\<rparr>"

text \<open>
  The examples of the specification: the weekly scan, the retention policy that keeps
  the ten latest pushes in project \<open>library\<close>, and one immutability rule per tag
  pattern. \<open>library\<close> is the project as the registry lists it once it has a retention
  policy, \<open>library_new\<close> before it has one, and \<open>listed i t\<close> a rule as the registry
  lists it, with its identifier.
\<close>

definition weekly :: scan_params where
  "weekly = \<lparr>schedule_cron = ''0 0 0 * * 0'', type_param = None\<rparr>"

definition keep_ten :: retention_params where
  "keep_ten =
     \<lparr>project = ''library'',
      rules = [dict [(''action'', JStr ''retain''),
                     (''params'', dict [(''latestPushedK'', JInt 10)]),
                     (''template'', JStr ''latestPushedK'')]],
      retention_cron = ''0 0 0 * * 0'',
      force = False\<rparr>"

definition library :: json where
  "library = dict [(''name'', JStr ''library''), (''project_id'', JInt 1),
                   (''metadata'', dict [(''retention_id'', JStr ''7'')])]"

definition library_new :: json where
  "library_new = dict [(''name'', JStr ''library''), (''project_id'', JInt 1),
                       (''metadata'', dict [(''public'', JStr ''true'')])]"

definition rule_for :: "string \<Rightarrow> tag_immutability_object" where
  "rule_for t = \<lparr>repository = \<lparr>kind = ''repoMatches'', pattern = ''**''\<rparr>,
                 tag = \<lparr>kind = ''matches'', pattern = t\<rparr>\<rparr>"

definition protect :: "string list \<Rightarrow> tag_params" where
  "protect ts = \<lparr>tag_project = ''library'', tag_immutability_list = map rule_for ts\<rparr>"

definition listed :: "int \<Rightarrow> string \<Rightarrow> json" where
  "listed i t =
     (case createDesiredTagImmutability (rule_for t) (JInt 1) of
        JDict m \<Rightarrow> JDict (fmupd ''id'' (JInt i) m)
      | v \<Rightarrow> v)"

definition listed_policy :: json where
  "listed_policy =
     (case createDesiredRetentionPolicy keep_ten (JInt 1) of
        JDict m \<Rightarrow> JDict (fmupd ''id'' (JInt 7) m)
      | v \<Rightarrow> v)"

definition keep_ten_forced :: retention_params where
  "keep_ten_forced = keep_ten\<lparr>force := True\<rparr>"



section \<open>Properties\<close>

lemma dict_neq_empty: "dict ((k, v) # kvs) \<noteq> dict []"
proof
  assume "dict ((k, v) # kvs) = dict []"
  then have "fmlookup (fmap_of_list ((k, v) # kvs)) k = fmlookup (fmap_of_list []) k"
    by (simp add: dict_def)
  then show False by simp
qed

lemma seq_Inr: "m st = (Inr x, st') \<Longrightarrow> seq m f st = f x st'"
  by (simp add: seq_def)

lemma seq_Inl: "m st = (Inl out, st') \<Longrightarrow> seq m f st = (Inl out, st')"
  by (simp add: seq_def)

lemma seq_return [simp]: "seq (return x) f = f x"
  by (rule ext) (simp add: seq_def return_def)

lemma seq_stop [simp]: "seq (stop out) f = stop out"
  by (rule ext) (simp add: seq_def stop_def)

lemma reads_only_return: "reads_only (return x)"
  by (simp add: reads_only_def return_def)

lemma reads_only_stop: "reads_only (stop out)"
  by (simp add: reads_only_def stop_def)

lemma reads_only_attempt: "reads_only (attempt v)"
  by (cases v) (simp_all add: attempt_def reads_only_return reads_only_stop)

lemma reads_only_json_of: "reads_only (json_of r)"
  by (cases "json_body r") (simp_all add: json_of_def reads_only_return reads_only_stop)

lemma reads_only_seq:
  assumes "reads_only m" and "\<And>x. reads_only (f x)"
  shows "reads_only (seq m f)"
  unfolding reads_only_def
proof
  fix st
  show "writes (snd (seq m f st)) = writes st"
  proof (cases "m st")
    case (Pair v st')
    have w: "writes st' = writes st"
      using assms(1) Pair by (auto simp: reads_only_def dest: spec[of _ st])
    show ?thesis
    proof (cases v)
      case (Inl out)
      with Pair w show ?thesis by (simp add: seq_def)
    next
      case (Inr x)
      have "writes (snd (f x st')) = writes st'"
        using assms(2)[of x] by (simp add: reads_only_def)
      with Pair Inr w show ?thesis by (simp add: seq_def)
    qed
  qed
qed

lemma reads_only_requests_get: "reads_only (requests_get srv ep)"
  by (simp add: reads_only_def requests_get_def send_def writes_def mutating_def get_request_def split: prod.splits)

lemmas reads_only_intros =
  reads_only_return reads_only_stop reads_only_attempt reads_only_json_of
  reads_only_seq reads_only_requests_get

lemma reads_only_if: "reads_only a \<Longrightarrow> reads_only b \<Longrightarrow> reads_only (if c then a else b)"
  by simp

lemma reads_only_getSchedule: "reads_only (getSchedule srv)"
  unfolding getSchedule_def
  by (intro reads_only_intros reads_only_if) (auto intro!: reads_only_intros split: option.splits)

lemma reads_only_getProjectByName: "reads_only (getProjectByName srv name)"
  unfolding getProjectByName_def
  by (intro reads_only_intros) (auto intro!: reads_only_intros split: option.splits json.splits list.splits)

lemma reads_only_getRetentionPolicy: "reads_only (getRetentionPolicy srv rid)"
  unfolding getRetentionPolicy_def
  by (intro reads_only_intros reads_only_if)

lemma reads_only_getTagImmutabilityList: "reads_only (getTagImmutabilityList srv pid)"
  unfolding getTagImmutabilityList_def
  by (intro reads_only_intros reads_only_if)

lemma reads_only_fetch_formatted: "reads_only (fetch_formatted srv pid)"
  unfolding fetch_formatted_def
  by (intro reads_only_intros reads_only_getTagImmutabilityList)

lemma reads_only_retention_current: "reads_only (retention_current srv p)"
  unfolding retention_current_def project_not_found_def
  by (intro reads_only_intros reads_only_getProjectByName)
     (auto intro!: reads_only_intros reads_only_getRetentionPolicy split: option.splits)

lemma reads_only_tag_current: "reads_only (tag_current srv p)"
  unfolding tag_current_def project_not_found_def
  by (intro reads_only_intros reads_only_getProjectByName)
     (auto intro!: reads_only_intros reads_only_fetch_formatted split: option.splits)

lemma reads_only_scan_check: "reads_only (scan_body srv p True)"
  unfolding scan_body_def Let_def
  by (intro reads_only_intros reads_only_getSchedule) (auto intro!: reads_only_intros)

lemma reads_only_retention_check: "reads_only (retention_body srv p True)"
  unfolding retention_body_def
  by (intro reads_only_intros reads_only_retention_current)
     (auto simp: retention_update_def retention_create_def intro!: reads_only_intros split: option.splits)

lemma reads_only_tag_check: "reads_only (tag_body srv p True)"
  unfolding tag_body_def
  by (intro reads_only_intros reads_only_tag_current)
     (auto simp: tag_reconcile_def intro!: reads_only_intros split: option.splits)

lemma run_module_reads_only: "reads_only m \<Longrightarrow> writes (snd (run_module m w)) = []"
  by (auto simp: reads_only_def run_module_def start_def writes_def split: prod.splits sum.splits dest!: spec[of _ "\<lparr>world = w, issued = []\<rparr>"])

lemma run_module_seq_Inr:
  "m (start w) = (Inr x, st) \<Longrightarrow> run_module (seq m f) w = (case f x st of (Inl out, st') \<Rightarrow> (out, st') | (Inr r, st') \<Rightarrow> (Exit r, st'))"
  by (simp add: run_module_def seq_def)

lemma run_module_seq_Inl:
  "m (start w) = (Inl out, st) \<Longrightarrow> run_module (seq m f) w = (out, st)"
  by (simp add: run_module_def seq_def)

lemma reads_only_start: "reads_only m \<Longrightarrow> writes (snd (m (start w))) = []"
  by (auto simp: reads_only_def start_def writes_def dest!: spec[of _ "\<lparr>world = w, issued = []\<rparr>"])

lemma reads_only_startD: "reads_only m \<Longrightarrow> m (start w) = (v, st) \<Longrightarrow> writes st = []"
  using reads_only_start[of m w] by simp

text \<open>
  C3. In check mode none of the three modules issues a POST, PUT or DELETE, whatever the
  registry answers and whatever the delta. When the fetched state differs from the
  desired one (or force is set, or the project has no retention policy yet), the run
  ends right after the fetch with \<open>changed = True\<close> and the before/after pair (the
  desired policy, for a policy to be created) in the result.
\<close>

theorem check_mode_issues_no_write:
  "writes (snd (HarborRetentionModule srv rp True wr)) = [] \<and>
   writes (snd (HarborScanAllScheduleModule srv sp True ws)) = [] \<and>
   writes (snd (HarborTagImmutabilityModule srv tp True wt)) = [] \<and>
   (\<forall>before0 st.
      getSchedule srv (start ws) = (Inr before0, st) \<and>
      constructDesired (schedule_cron sp) (scan_type sp) \<noteq> before0 \<longrightarrow>
      HarborScanAllScheduleModule srv sp True ws =
        (Exit \<lparr>changed = True,
               diff = Some (before0, constructDesired (schedule_cron sp) (scan_type sp)),
               retention_policy = None\<rparr>, st)) \<and>
   (\<forall>project_id rid before0 st.
      retention_current srv rp (start wr) = (Inr (project_id, Some (rid, before0)), st) \<and>
      (force rp \<or> before0 \<noteq> createDesiredRetentionPolicy rp project_id) \<longrightarrow>
      HarborRetentionModule srv rp True wr =
        (Exit \<lparr>changed = True,
               diff = Some (before0, createDesiredRetentionPolicy rp project_id),
               retention_policy = None\<rparr>, st)) \<and>
   (\<forall>project_id st.
      retention_current srv rp (start wr) = (Inr (project_id, None), st) \<longrightarrow>
      HarborRetentionModule srv rp True wr =
        (Exit \<lparr>changed = True, diff = None,
               retention_policy = Some (createDesiredRetentionPolicy rp project_id)\<rparr>, st)) \<and>
   (\<forall>project_id before0 ids st.
      tag_current srv tp (start wt) = (Inr (project_id, before0, ids), st) \<and>
      before0 \<noteq> JList (createDesiredTagImmutabilityList tp project_id) \<longrightarrow>
      HarborTagImmutabilityModule srv tp True wt =
        (Exit \<lparr>changed = True,
               diff = Some (before0, JList (createDesiredTagImmutabilityList tp project_id)),
               retention_policy = None\<rparr>, st))"
proof (intro conjI allI impI)
  show "writes (snd (HarborRetentionModule srv rp True wr)) = []"
    by (simp add: HarborRetentionModule_def run_module_reads_only reads_only_retention_check)
  show "writes (snd (HarborScanAllScheduleModule srv sp True ws)) = []"
    by (simp add: HarborScanAllScheduleModule_def run_module_reads_only reads_only_scan_check)
  show "writes (snd (HarborTagImmutabilityModule srv tp True wt)) = []"
    by (simp add: HarborTagImmutabilityModule_def run_module_reads_only reads_only_tag_check)
next
  fix before0 st
  assume "getSchedule srv (start ws) = (Inr before0, st) \<and>
      constructDesired (schedule_cron sp) (scan_type sp) \<noteq> before0"
  then show "HarborScanAllScheduleModule srv sp True ws =
        (Exit \<lparr>changed = True,
               diff = Some (before0, constructDesired (schedule_cron sp) (scan_type sp)),
               retention_policy = None\<rparr>, st)"
    by (simp add: HarborScanAllScheduleModule_def scan_body_def Let_def run_module_seq_Inr
        return_def setChanges_def result0_def)
next
  fix project_id rid before0 st
  assume "retention_current srv rp (start wr) = (Inr (project_id, Some (rid, before0)), st) \<and>
      (force rp \<or> before0 \<noteq> createDesiredRetentionPolicy rp project_id)"
  then show "HarborRetentionModule srv rp True wr =
        (Exit \<lparr>changed = True,
               diff = Some (before0, createDesiredRetentionPolicy rp project_id),
               retention_policy = None\<rparr>, st)"
    by (auto simp: HarborRetentionModule_def retention_body_def run_module_seq_Inr
        retention_update_def return_def setChanges_def result0_def)
next
  fix project_id st
  assume "retention_current srv rp (start wr) = (Inr (project_id, None), st)"
  then show "HarborRetentionModule srv rp True wr =
        (Exit \<lparr>changed = True, diff = None,
               retention_policy = Some (createDesiredRetentionPolicy rp project_id)\<rparr>, st)"
    by (simp add: HarborRetentionModule_def retention_body_def run_module_seq_Inr
        retention_create_def return_def result0_def)
next
  fix project_id before0 ids st
  assume "tag_current srv tp (start wt) = (Inr (project_id, before0, ids), st) \<and>
      before0 \<noteq> JList (createDesiredTagImmutabilityList tp project_id)"
  then show "HarborTagImmutabilityModule srv tp True wt =
        (Exit \<lparr>changed = True,
               diff = Some (before0, JList (createDesiredTagImmutabilityList tp project_id)),
               retention_policy = None\<rparr>, st)"
    by (simp add: HarborTagImmutabilityModule_def tag_body_def run_module_seq_Inr
        tag_reconcile_def return_def setChanges_def result0_def)
qed

theorem check_mode_issues_no_write_witness:
  "getSchedule scripted (start [ok_empty]) =
     (Inr (dict []), \<lparr>world = [], issued = [get_request ScanAllSchedule]\<rparr>) \<and>
   constructDesired (schedule_cron weekly) (scan_type weekly) \<noteq> dict [] \<and>
   HarborScanAllScheduleModule scripted weekly True [ok_empty] =
     (Exit \<lparr>changed = True,
            diff = Some (dict [], constructDesired (schedule_cron weekly) (scan_type weekly)),
            retention_policy = None\<rparr>,
      \<lparr>world = [], issued = [get_request ScanAllSchedule]\<rparr>) \<and>
   retention_current scripted keep_ten (start [ok_json (JList [library_new])]) =
     (Inr (JInt 1, None), \<lparr>world = [], issued = [get_request (Projects ''library'')]\<rparr>) \<and>
   HarborRetentionModule scripted keep_ten True [ok_json (JList [library_new])] =
     (Exit \<lparr>changed = True, diff = None,
            retention_policy = Some (createDesiredRetentionPolicy keep_ten (JInt 1))\<rparr>,
      \<lparr>world = [], issued = [get_request (Projects ''library'')]\<rparr>)"
proof -
  have a: "getSchedule scripted (start [ok_empty]) =
     (Inr (dict []), \<lparr>world = [], issued = [get_request ScanAllSchedule]\<rparr>)"
    by code_simp
  have b: "constructDesired (schedule_cron weekly) (scan_type weekly) \<noteq> dict []"
    by code_simp
  have c: "retention_current scripted keep_ten (start [ok_json (JList [library_new])]) =
     (Inr (JInt 1, None), \<lparr>world = [], issued = [get_request (Projects ''library'')]\<rparr>)"
    by code_simp
  show ?thesis
    using check_mode_issues_no_write
            [of scripted keep_ten "[ok_json (JList [library_new])]" weekly "[ok_empty]"
                "protect []" "[]"]
    by (simp add: a b c)
qed

lemma issues_return: "issues P (return x)" by (simp add: issues_def return_def)
lemma issues_stop: "issues P (stop x)" by (simp add: issues_def stop_def)
lemma issues_attempt: "issues P (attempt v)"
  by (cases v) (simp_all add: attempt_def issues_return issues_stop)
lemma issues_json_of: "issues P (json_of r)"
  by (cases "json_body r") (simp_all add: json_of_def issues_return issues_stop)
lemma issues_send: "P req \<Longrightarrow> issues P (send srv req)"
  by (simp add: issues_def send_def split: prod.splits)

lemma issues_seq:
  assumes "issues P m" and "\<And>x. issues P (f x)"
  shows "issues P (seq m f)"
  unfolding issues_def
proof
  fix st
  obtain v st' where ms: "m st = (v, st')" by (cases "m st")
  obtain more where m1: "issued st' = issued st @ more" "list_all P more"
    using assms(1) ms by (auto simp: issues_def dest!: spec[of _ st])
  show "\<exists>more. issued (snd (seq m f st)) = issued st @ more \<and> list_all P more"
  proof (cases v)
    case (Inl out)
    with ms m1 show ?thesis by (auto simp: seq_def)
  next
    case (Inr x)
    obtain more2 where "issued (snd (f x st')) = issued st' @ more2" "list_all P more2"
      using assms(2)[of x] by (auto simp: issues_def dest!: spec[of _ st'])
    with ms m1 Inr show ?thesis by (auto simp: seq_def)
  qed
qed

lemma issues_True_requests:
  "issues (\<lambda>_. True) (requests_get srv ep)" "issues (\<lambda>_. True) (requests_put srv ep js)"
  "issues (\<lambda>_. True) (requests_post srv ep js)" "issues (\<lambda>_. True) (requests_delete srv ep)"
  by (simp_all add: requests_get_def requests_put_def requests_post_def requests_delete_def issues_send)

lemmas issues_intros = issues_return issues_stop issues_attempt issues_json_of issues_seq

lemma extends_getSchedule: "issues (\<lambda>_. True) (getSchedule srv)"
  unfolding getSchedule_def
  by (intro issues_intros issues_True_requests) (auto intro!: issues_intros split: option.splits)

lemma seq_assoc: "seq (seq m f) g = seq m (\<lambda>x. seq (f x) g)"
  by (rule ext) (simp add: seq_def split: prod.splits sum.splits)

lemma issued_seq_send:
  assumes "\<And>x. issues (\<lambda>_. True) (f x)"
  shows "\<exists>more. issued (snd (seq (send srv req) f st)) = issued st @ req # more"
proof -
  obtain resp w' where s: "srv req (world st) = (resp, w')" by (cases "srv req (world st)")
  let ?st' = "\<lparr>world = w', issued = issued st @ [req]\<rparr>"
  obtain more where "issued (snd (f resp ?st')) = issued ?st' @ more"
    using assms[of resp] by (auto simp: issues_def dest!: spec[of _ ?st'])
  with s show ?thesis by (simp add: seq_def send_def)
qed

lemma snd_run_module: "snd (run_module m w) = snd (m (start w))"
  by (simp add: run_module_def split: prod.splits sum.splits)

lemma constructDesired_neq_empty: "constructDesired c t \<noteq> dict []"
  by (simp add: constructDesired_def dict_neq_empty)

lemma getSchedule_empty:
  assumes "srv (get_request ScanAllSchedule) (world st) = (resp, w')"
      and "status_code resp = 200" and "content_length resp = Some ''0''"
  shows "getSchedule srv st = (Inr (dict []), \<lparr>world = w', issued = issued st @ [get_request ScanAllSchedule]\<rparr>)"
  using assms by (simp add: getSchedule_def seq_def requests_get_def send_def return_def)

text \<open>
  C9. When the GET of the schedule returns status 200 with content length \<open>"0"\<close>,
  \<open>getSchedule\<close> returns the empty mapping. No desired schedule equals it, with a
  given type or with the default \<open>'Custom'\<close>, so the comparison fails, and in apply mode the
  next request is the PUT of the desired schedule.
\<close>

theorem empty_schedule_forces_write:
  assumes "srv (get_request ScanAllSchedule) w = (resp, w')"
      and "status_code resp = 200" and "content_length resp = Some ''0''"
  shows "getSchedule srv (start w) =
           (Inr (dict []), \<lparr>world = w', issued = [get_request ScanAllSchedule]\<rparr>) \<and>
         constructDesired (schedule_cron p) (scan_type p) \<noteq> dict [] \<and>
         (type_param p = None \<longrightarrow> scan_type p = ''Custom'') \<and>
         take 2 (issued (snd (HarborScanAllScheduleModule srv p False w))) =
           [get_request ScanAllSchedule,
            put_request ScanAllSchedule (constructDesired (schedule_cron p) (scan_type p))]"
proof -
  let ?desired = "constructDesired (schedule_cron p) (scan_type p)"
  let ?st1 = "\<lparr>world = w', issued = [get_request ScanAllSchedule]\<rparr>"
  have g: "getSchedule srv (start w) = (Inr (dict []), ?st1)"
    using getSchedule_empty[of srv "start w" resp w'] assms by (simp add: start_def)
  have n: "?desired \<noteq> dict []" by (rule constructDesired_neq_empty)
  have t: "type_param p = None \<longrightarrow> scan_type p = ''Custom''"
    by (simp add: scan_type_def)
  have "scan_body srv p False (start w) =
          seq (send srv (put_request ScanAllSchedule ?desired))
            (\<lambda>r. seq (if status_code r \<noteq> 200 then stop (Fail (RequestParse r)) else return ())
               (\<lambda>_. seq (getSchedule srv) (\<lambda>after. return (setChanges (dict []) after result0)))) ?st1"
    using g n by (simp add: scan_body_def Let_def seq_Inr putSchedule_def requests_put_def seq_assoc)
  moreover have "\<exists>more. issued (snd (seq (send srv (put_request ScanAllSchedule ?desired))
            (\<lambda>r. seq (if status_code r \<noteq> 200 then stop (Fail (RequestParse r)) else return ())
               (\<lambda>_. seq (getSchedule srv) (\<lambda>after. return (setChanges (dict []) after result0)))) ?st1))
          = issued ?st1 @ put_request ScanAllSchedule ?desired # more"
    by (rule issued_seq_send) (auto intro!: issues_intros extends_getSchedule)
  ultimately have a: "take 2 (issued (snd (HarborScanAllScheduleModule srv p False w))) =
           [get_request ScanAllSchedule, put_request ScanAllSchedule ?desired]"
    by (auto simp: HarborScanAllScheduleModule_def snd_run_module)
  from g n t a show ?thesis by simp
qed

theorem empty_schedule_forces_write_witness:
  "scripted (get_request ScanAllSchedule) [ok_empty, ok_empty, ok_json (constructDesired ''0 0 0 * * 0'' ''Custom'')] =
     (ok_empty, [ok_empty, ok_json (constructDesired ''0 0 0 * * 0'' ''Custom'')]) \<and>
   status_code ok_empty = 200 \<and> content_length ok_empty = Some ''0'' \<and>
   type_param weekly = None \<and> scan_type weekly = ''Custom'' \<and>
   take 2 (issued (snd (HarborScanAllScheduleModule scripted weekly False
       [ok_empty, ok_empty, ok_json (constructDesired ''0 0 0 * * 0'' ''Custom'')]))) =
     [get_request ScanAllSchedule,
      put_request ScanAllSchedule (constructDesired ''0 0 0 * * 0'' ''Custom'')]"
proof -
  have a: "scripted (get_request ScanAllSchedule) [ok_empty, ok_empty, ok_json (constructDesired ''0 0 0 * * 0'' ''Custom'')] =
     (ok_empty, [ok_empty, ok_json (constructDesired ''0 0 0 * * 0'' ''Custom'')])" by simp
  have b: "status_code ok_empty = 200" "content_length ok_empty = Some ''0''"
    by (simp_all add: ok_empty_def)
  have c: "type_param weekly = None" "schedule_cron weekly = ''0 0 0 * * 0''" by (simp_all add: weekly_def)
  show ?thesis
    using empty_schedule_forces_write
            [of scripted "[ok_empty, ok_empty, ok_json (constructDesired ''0 0 0 * * 0'' ''Custom'')]"
                ok_empty "[ok_empty, ok_json (constructDesired ''0 0 0 * * 0'' ''Custom'')]" weekly]
          a b c
    by (simp add: scan_type_def)
qed

text \<open>
  C5. The scan-all module does not check the status of its GET. Here the registry answers
  the read with status 500 and a body that holds a schedule equal to the desired one:
  the run takes the body as the current state and exits with \<open>changed = False\<close>. The
  retention module's read stops on the same response with \<open>fail_json\<close>.
\<close>

theorem scan_read_failure_goes_unnoticed:
  "HarborScanAllScheduleModule scripted weekly False
     [\<lparr>status_code = 500, content_length = None,
       json_body = Some (constructDesired ''0 0 0 * * 0'' ''Custom''), body_text = []\<rparr>] =
   (Exit \<lparr>changed = False, diff = None, retention_policy = None\<rparr>,
    \<lparr>world = [], issued = [get_request ScanAllSchedule]\<rparr>) \<and>
   fst (getRetentionPolicy scripted (JStr ''7'') (start
     [\<lparr>status_code = 500, content_length = None,
       json_body = Some (constructDesired ''0 0 0 * * 0'' ''Custom''), body_text = []\<rparr>])) =
   Inl (Fail (RequestParse \<lparr>status_code = 500, content_length = None,
       json_body = Some (constructDesired ''0 0 0 * * 0'' ''Custom''), body_text = []\<rparr>))"
  by code_simp

text \<open>
  C6. When the project does not exist, the retention and the tag-immutability module end
  with an AttributeError raised while the arguments of \<open>fail_json\<close> are evaluated; the
  message \<open>"Project not found"\<close> is not handed to the host.
\<close>

theorem project_not_found_message_is_lost:
  "HarborRetentionModule scripted keep_ten False [ok_json (JList [])] =
     (Raise AttributeError, \<lparr>world = [], issued = [get_request (Projects ''library'')]\<rparr>) \<and>
   HarborTagImmutabilityModule scripted (protect [''new'']) False [ok_json (JList [])] =
     (Raise AttributeError, \<lparr>world = [], issued = [get_request (Projects ''library'')]\<rparr>)"
  by code_simp

lemma zip_as_map:
  "length ids = length A \<Longrightarrow> zip A ids = map (\<lambda>k. (A ! k, ids ! k)) [0 ..< length A]"
  by (rule nth_equalityI) simp_all

lemma to_delete_ids_zip:
  assumes "length ids = length A"
  shows "to_delete_ids ids (to_delete_keys B A) =
           map snd (filter (\<lambda>(a, i). a \<notin> set B) (zip A ids))"
  by (simp add: zip_as_map[OF assms] to_delete_ids_def to_delete_keys_def filter_map o_def)

lemma set_kept:
  "set (nths A (- set (to_delete_keys B A))) = set A \<inter> set B"
proof -
  have "set (nths A (- set (to_delete_keys B A))) = {A ! i | i. i < length A \<and> A ! i \<in> set B}"
    by (auto simp: set_nths to_delete_keys_def)
  also have "\<dots> = set A \<inter> set B"
  proof (intro set_eqI iffI)
    fix x assume "x \<in> {A ! i | i. i < length A \<and> A ! i \<in> set B}"
    then show "x \<in> set A \<inter> set B" by auto
  next
    fix x assume "x \<in> set A \<inter> set B"
    then obtain i where "i < length A" "A ! i = x" "x \<in> set B"
      by (auto simp: in_set_conv_nth[of x A])
    then show "x \<in> {A ! i | i. i < length A \<and> A ! i \<in> set B}" by auto
  qed
  finally show ?thesis .
qed

lemma format_item_id_free:
  "format_item project_id (JDict (fmupd ''id'' i m)) =
     Inr (i, JDict (fmupd ''disabled'' JFalse (fmupd ''priority'' (JInt 0)
                   (fmupd ''project_id'' project_id (fmdrop ''id'' m)))))"
  by (simp add: fmdrop_fmupd_same)

text \<open>
  C2. For a current rule list \<open>A\<close> with its identifiers and a desired list \<open>B\<close>: the
  rules to create are the items of \<open>B\<close> that are not in \<open>A\<close>, in the order of \<open>B\<close>; the
  identifiers to delete are those retained for the items of \<open>A\<close> that are not in \<open>B\<close>;
  what is left of \<open>A\<close> together with what is created is, as a set, \<open>B\<close>. Items are
  compared as whole formatted items: the identifier is taken out before, and the formatted
  item is the same whatever the identifier was.
\<close>

theorem tag_differ_is_set_difference:
  assumes "length ids = length A"
  shows "to_add B A = filter (\<lambda>b. b \<notin> set A) B \<and>
         set (to_add B A) = set B - set A \<and>
         to_delete_ids ids (to_delete_keys B A) =
           map snd (filter (\<lambda>(a, i). a \<notin> set B) (zip A ids)) \<and>
         set (nths A (- set (to_delete_keys B A))) \<union> set (to_add B A) = set B \<and>
         map_sum id snd (format_item project_id (JDict (fmupd ''id'' i m))) =
           map_sum id snd (format_item project_id (JDict (fmupd ''id'' j m)))"
  using assms
  by (auto simp: to_delete_ids_zip set_kept to_add_def fmdrop_fmupd_same)

theorem tag_differ_is_set_difference_witness:
  "length [JInt 3, JInt 4] =
     length [createDesiredTagImmutability (rule_for ''old'') (JInt 1),
             createDesiredTagImmutability (rule_for ''keep'') (JInt 1)] \<and>
   to_add [createDesiredTagImmutability (rule_for ''keep'') (JInt 1),
           createDesiredTagImmutability (rule_for ''new'') (JInt 1)]
          [createDesiredTagImmutability (rule_for ''old'') (JInt 1),
           createDesiredTagImmutability (rule_for ''keep'') (JInt 1)] =
     [createDesiredTagImmutability (rule_for ''new'') (JInt 1)] \<and>
   to_delete_ids [JInt 3, JInt 4]
     (to_delete_keys [createDesiredTagImmutability (rule_for ''keep'') (JInt 1),
                      createDesiredTagImmutability (rule_for ''new'') (JInt 1)]
                     [createDesiredTagImmutability (rule_for ''old'') (JInt 1),
                      createDesiredTagImmutability (rule_for ''keep'') (JInt 1)]) = [JInt 3]"
proof -
  let ?A = "[createDesiredTagImmutability (rule_for ''old'') (JInt 1),
             createDesiredTagImmutability (rule_for ''keep'') (JInt 1)]"
  let ?B = "[createDesiredTagImmutability (rule_for ''keep'') (JInt 1),
             createDesiredTagImmutability (rule_for ''new'') (JInt 1)]"
  have l: "length [JInt 3, JInt 4] = length ?A" by simp
  have a: "filter (\<lambda>b. b \<notin> set ?A) ?B = [createDesiredTagImmutability (rule_for ''new'') (JInt 1)]"
    by code_simp
  have d: "map snd (filter (\<lambda>(a, i). a \<notin> set ?B) (zip ?A [JInt 3, JInt 4])) = [JInt 3]"
    by code_simp
  show ?thesis
    using tag_differ_is_set_difference[OF l, of ?B] a d by simp
qed




lemma seq_InrD:
  "seq m f st = (Inr y, st') \<Longrightarrow> \<exists>x st1. m st = (Inr x, st1) \<and> f x st1 = (Inr y, st')"
  by (auto simp: seq_def split: prod.splits sum.splits)






lemma writes_append: "writes \<lparr>world = w, issued = xs @ ys\<rparr> = filter mutating xs @ filter mutating ys"
  by (simp add: writes_def)

lemma reads_onlyD: "reads_only m \<Longrightarrow> m st = (v, st') \<Longrightarrow> writes st' = writes st"
  by (auto simp: reads_only_def dest!: spec[of _ st])

lemma mutating_requests [simp]:
  "\<not> mutating (get_request ep)" "mutating (put_request ep js)"
  "mutating (post_request ep js)" "mutating (delete_request ep)"
  by (simp_all add: mutating_def get_request_def put_request_def post_request_def delete_request_def)

lemma errorHandlingPostOrPutRequest_ok:
  "status_code r = 200 \<or> status_code r = 201 \<Longrightarrow> errorHandlingPostOrPutRequest r = return ()"
  by (auto simp: errorHandlingPostOrPutRequest_def)

lemma errorHandlingPostOrPutRequest_Inr:
  "errorHandlingPostOrPutRequest r st = (Inr u, st') \<Longrightarrow>
     (status_code r = 200 \<or> status_code r = 201) \<and> st' = st"
  by (auto simp: errorHandlingPostOrPutRequest_def return_def stop_def split: if_splits)

lemma errorHandlingHttpRequest_Inr:
  "errorHandlingHttpRequest r st = (Inr u, st') \<Longrightarrow>
     (status_code r = 200 \<or> status_code r = 201) \<and> st' = st"
  by (auto simp: errorHandlingHttpRequest_def return_def stop_def split: if_splits)

lemma retention_update_apply:
  assumes d: "force p \<or> before0 \<noteq> desired"
    and s: "srv (put_request (Retention rid) desired) (world st) = (presp, w1)"
    and ok: "status_code presp = 200 \<or> status_code presp = 201"
    and g: "getRetentionPolicy srv rid
              \<lparr>world = w1, issued = issued st @ [put_request (Retention rid) desired]\<rparr> =
            (Inr aresp, st')"
    and j: "json_body aresp = Some after"
  shows "retention_update srv p False desired rid before0 st =
           (Inr (if before0 \<noteq> after then setChanges before0 after result0 else result0), st')"
  using d s g j
  by (auto simp: retention_update_def seq_def requests_put_def send_def
      errorHandlingPostOrPutRequest_ok[OF ok] return_def json_of_def)

lemma created_requests:
  "createTagImmutabilities srv xs project_id st = (Inr u, st') \<Longrightarrow>
     issued st' = issued st @ map (post_request (ImmutableTagRules project_id)) xs"
proof (induction xs arbitrary: st)
  case Nil
  then show ?case by (simp add: return_def)
next
  case (Cons x xs)
  obtain resp w1 where s: "srv (post_request (ImmutableTagRules project_id) x) (world st) = (resp, w1)"
    by (cases "srv (post_request (ImmutableTagRules project_id) x) (world st)")
  let ?st1 = "\<lparr>world = w1, issued = issued st @ [post_request (ImmutableTagRules project_id) x]\<rparr>"
  from Cons.prems s have "seq (errorHandlingHttpRequest resp)
        (\<lambda>_. createTagImmutabilities srv xs project_id) ?st1 = (Inr u, st')"
    by (simp add: seq_def requests_post_def send_def)
  then have "createTagImmutabilities srv xs project_id ?st1 = (Inr u, st')"
    by (auto dest!: seq_InrD errorHandlingHttpRequest_Inr)
  from Cons.IH[OF this] show ?case by simp
qed

lemma deleted_requests:
  "deleteTagImmutabilities srv xs project_id st = (Inr u, st') \<Longrightarrow>
     issued st' = issued st @ map (\<lambda>i. delete_request (ImmutableTagRule project_id i)) xs"
proof (induction xs arbitrary: st)
  case Nil
  then show ?case by (simp add: return_def)
next
  case (Cons x xs)
  obtain resp w1 where s: "srv (delete_request (ImmutableTagRule project_id x)) (world st) = (resp, w1)"
    by (cases "srv (delete_request (ImmutableTagRule project_id x)) (world st)")
  let ?st1 = "\<lparr>world = w1, issued = issued st @ [delete_request (ImmutableTagRule project_id x)]\<rparr>"
  from Cons.prems s have "seq (errorHandlingHttpRequest resp)
        (\<lambda>_. deleteTagImmutabilities srv xs project_id) ?st1 = (Inr u, st')"
    by (simp add: seq_def requests_delete_def send_def)
  then have "deleteTagImmutabilities srv xs project_id ?st1 = (Inr u, st')"
    by (auto dest!: seq_InrD errorHandlingHttpRequest_Inr)
  from Cons.IH[OF this] show ?case by simp
qed

lemma writes_issued_append:
  "issued st' = issued st @ rest \<Longrightarrow> writes st' = writes st @ filter mutating rest"
  by (simp add: writes_def)

lemma tag_apply_run:
  assumes a: "tag_immutabilities_to_add desired before0 = Inr adds"
    and c: "createTagImmutabilities srv adds project_id st = (Inr (), st2)"
    and d: "deleteTagImmutabilities srv
              (to_delete_ids ids (tag_immutabilities_to_delete_keys desired before0))
              project_id st2 = (Inr (), st3)"
    and f: "fetch_formatted srv project_id st3 = (Inr (after, ids'), st4)"
  shows "tag_apply srv project_id desired before0 ids st =
           (Inr (if before0 \<noteq> after then setChanges before0 after result0
                 else result0\<lparr>changed := False\<rparr>), st4)"
  using a c d f by (simp add: tag_apply_def seq_def attempt_def return_def)

lemma tag_apply_writes:
  assumes c: "createTagImmutabilities srv adds project_id st = (Inr (), st2)"
    and d: "deleteTagImmutabilities srv dels project_id st2 = (Inr (), st3)"
    and f: "fetch_formatted srv project_id st3 = (v, st4)"
  shows "writes st4 = writes st @ map (post_request (ImmutableTagRules project_id)) adds @
           map (\<lambda>i. delete_request (ImmutableTagRule project_id i)) dels"
proof -
  have "writes st2 = writes st @ map (post_request (ImmutableTagRules project_id)) adds"
    using writes_issued_append[OF created_requests[OF c]] by (simp add: filter_map o_def)
  moreover have "writes st3 = writes st2 @ map (\<lambda>i. delete_request (ImmutableTagRule project_id i)) dels"
    using writes_issued_append[OF deleted_requests[OF d]] by (simp add: filter_map o_def)
  moreover have "writes st4 = writes st3"
    using reads_onlyD[OF reads_only_fetch_formatted f] .
  ultimately show ?thesis by simp
qed

text \<open>
  C10. In apply mode the reported flag comes from comparing the state fetched before the
  writes with the state fetched after them: the run reports \<open>changed = True\<close>, with the
  two states as the diff, exactly when they differ. When the two are equal the run
  reports \<open>changed = False\<close>, although the PUT (retention) or the POSTs and DELETEs (tag
  immutability) were issued.
\<close>

theorem changed_is_what_the_refetch_shows:
  "(retention_current srv rp (start wr) = (Inr (pid, Some (rid, before0)), st) \<and>
    (force rp \<or> before0 \<noteq> createDesiredRetentionPolicy rp pid) \<and>
    srv (put_request (Retention rid) (createDesiredRetentionPolicy rp pid)) (world st) = (presp, w1) \<and>
    (status_code presp = 200 \<or> status_code presp = 201) \<and>
    getRetentionPolicy srv rid
      \<lparr>world = w1,
       issued = issued st @ [put_request (Retention rid) (createDesiredRetentionPolicy rp pid)]\<rparr> =
      (Inr aresp, st') \<and>
    json_body aresp = Some after \<longrightarrow>
      HarborRetentionModule srv rp False wr =
        (Exit \<lparr>changed = (before0 \<noteq> after),
               diff = (if before0 \<noteq> after then Some (before0, after) else None),
               retention_policy = None\<rparr>, st') \<and>
      writes st' = [put_request (Retention rid) (createDesiredRetentionPolicy rp pid)]) \<and>
   (tag_current srv tp (start wt) = (Inr (tpid, tbefore, ids), tst) \<and>
    tbefore \<noteq> JList (createDesiredTagImmutabilityList tp tpid) \<and>
    tag_immutabilities_to_add (createDesiredTagImmutabilityList tp tpid) tbefore = Inr adds \<and>
    createTagImmutabilities srv adds tpid tst = (Inr (), tst2) \<and>
    deleteTagImmutabilities srv
      (to_delete_ids ids
         (tag_immutabilities_to_delete_keys (createDesiredTagImmutabilityList tp tpid) tbefore))
      tpid tst2 = (Inr (), tst3) \<and>
    fetch_formatted srv tpid tst3 = (Inr (tafter, ids'), tst4) \<longrightarrow>
      HarborTagImmutabilityModule srv tp False wt =
        (Exit \<lparr>changed = (tbefore \<noteq> tafter),
               diff = (if tbefore \<noteq> tafter then Some (tbefore, tafter) else None),
               retention_policy = None\<rparr>, tst4) \<and>
      writes tst4 =
        map (post_request (ImmutableTagRules tpid)) adds @
        map (\<lambda>i. delete_request (ImmutableTagRule tpid i))
          (to_delete_ids ids
             (tag_immutabilities_to_delete_keys (createDesiredTagImmutabilityList tp tpid) tbefore)))"
proof -
  have retention: "HarborRetentionModule srv rp False wr =
        (Exit \<lparr>changed = (before0 \<noteq> after),
               diff = (if before0 \<noteq> after then Some (before0, after) else None),
               retention_policy = None\<rparr>, st') \<and>
      writes st' = [put_request (Retention rid) (createDesiredRetentionPolicy rp pid)]"
    if c: "retention_current srv rp (start wr) = (Inr (pid, Some (rid, before0)), st)"
      and d: "force rp \<or> before0 \<noteq> createDesiredRetentionPolicy rp pid"
      and s: "srv (put_request (Retention rid) (createDesiredRetentionPolicy rp pid)) (world st) =
                (presp, w1)"
      and ok: "status_code presp = 200 \<or> status_code presp = 201"
      and g: "getRetentionPolicy srv rid
                \<lparr>world = w1,
                 issued = issued st @
                   [put_request (Retention rid) (createDesiredRetentionPolicy rp pid)]\<rparr> =
              (Inr aresp, st')"
      and j: "json_body aresp = Some after"
  proof
    let ?desired = "createDesiredRetentionPolicy rp pid"
    have u: "retention_update srv rp False ?desired rid before0 st =
               (Inr (if before0 \<noteq> after then setChanges before0 after result0 else result0), st')"
      using retention_update_apply[OF d s ok g j] .
    show "HarborRetentionModule srv rp False wr =
        (Exit \<lparr>changed = (before0 \<noteq> after),
               diff = (if before0 \<noteq> after then Some (before0, after) else None),
               retention_policy = None\<rparr>, st')"
      using c u by (simp add: HarborRetentionModule_def retention_body_def run_module_seq_Inr
          setChanges_def result0_def)
    have "writes st = []"
      using reads_only_startD[OF reads_only_retention_current c] .
    moreover have "writes st' =
        writes \<lparr>world = w1, issued = issued st @ [put_request (Retention rid) ?desired]\<rparr>"
      using reads_onlyD[OF reads_only_getRetentionPolicy g] .
    ultimately show "writes st' = [put_request (Retention rid) ?desired]"
      by (simp add: writes_def)
  qed
  have tag: "HarborTagImmutabilityModule srv tp False wt =
        (Exit \<lparr>changed = (tbefore \<noteq> tafter),
               diff = (if tbefore \<noteq> tafter then Some (tbefore, tafter) else None),
               retention_policy = None\<rparr>, tst4) \<and>
      writes tst4 =
        map (post_request (ImmutableTagRules tpid)) adds @
        map (\<lambda>i. delete_request (ImmutableTagRule tpid i))
          (to_delete_ids ids
             (tag_immutabilities_to_delete_keys (createDesiredTagImmutabilityList tp tpid) tbefore))"
    if c: "tag_current srv tp (start wt) = (Inr (tpid, tbefore, ids), tst)"
      and n: "tbefore \<noteq> JList (createDesiredTagImmutabilityList tp tpid)"
      and a: "tag_immutabilities_to_add (createDesiredTagImmutabilityList tp tpid) tbefore = Inr adds"
      and cr: "createTagImmutabilities srv adds tpid tst = (Inr (), tst2)"
      and de: "deleteTagImmutabilities srv
                 (to_delete_ids ids
                    (tag_immutabilities_to_delete_keys (createDesiredTagImmutabilityList tp tpid)
                       tbefore))
                 tpid tst2 = (Inr (), tst3)"
      and f: "fetch_formatted srv tpid tst3 = (Inr (tafter, ids'), tst4)"
  proof
    let ?desired = "createDesiredTagImmutabilityList tp tpid"
    have u: "tag_apply srv tpid ?desired tbefore ids tst =
               (Inr (if tbefore \<noteq> tafter then setChanges tbefore tafter result0
                     else result0\<lparr>changed := False\<rparr>), tst4)"
      using tag_apply_run[OF a cr de f] .
    show "HarborTagImmutabilityModule srv tp False wt =
        (Exit \<lparr>changed = (tbefore \<noteq> tafter),
               diff = (if tbefore \<noteq> tafter then Some (tbefore, tafter) else None),
               retention_policy = None\<rparr>, tst4)"
      using c n u
      by (simp add: HarborTagImmutabilityModule_def tag_body_def run_module_seq_Inr
          tag_reconcile_def setChanges_def result0_def)
    have "writes tst = []"
      using reads_only_startD[OF reads_only_tag_current c] .
    then show "writes tst4 =
        map (post_request (ImmutableTagRules tpid)) adds @
        map (\<lambda>i. delete_request (ImmutableTagRule tpid i))
          (to_delete_ids ids (tag_immutabilities_to_delete_keys ?desired tbefore))"
      using tag_apply_writes[OF cr de f] by simp
  qed
  show ?thesis
    using retention tag by blast
qed

theorem changed_is_what_the_refetch_shows_witness:
  "retention_current scripted keep_ten
      (start [ok_json (JList [library]), ok_json listed_policy, ok_empty, ok_json listed_policy]) =
     (Inr (JInt 1, Some (JStr ''7'', listed_policy)),
      \<lparr>world = [ok_empty, ok_json listed_policy],
       issued = [get_request (Projects ''library''), get_request (Retention (JStr ''7''))]\<rparr>) \<and>
   listed_policy \<noteq> createDesiredRetentionPolicy keep_ten (JInt 1) \<and>
   status_code ok_empty = 200 \<and>
   json_body (ok_json listed_policy) = Some listed_policy \<and>
   HarborRetentionModule scripted keep_ten False
      [ok_json (JList [library]), ok_json listed_policy, ok_empty, ok_json listed_policy] =
     (Exit \<lparr>changed = False, diff = None, retention_policy = None\<rparr>,
      \<lparr>world = [],
       issued = [get_request (Projects ''library''), get_request (Retention (JStr ''7'')),
                 put_request (Retention (JStr ''7'')) (createDesiredRetentionPolicy keep_ten (JInt 1)),
                 get_request (Retention (JStr ''7''))]\<rparr>) \<and>
   tag_current scripted (protect [''new''])
      (start [ok_json (JList [library]), ok_json (JList [listed 3 ''old'']), ok_empty, ok_empty,
              ok_json (JList [listed 3 ''old''])]) =
     (Inr (JInt 1, JList [createDesiredTagImmutability (rule_for ''old'') (JInt 1)], [JInt 3]),
      \<lparr>world = [ok_empty, ok_empty, ok_json (JList [listed 3 ''old''])],
       issued = [get_request (Projects ''library''), get_request (ImmutableTagRules (JInt 1))]\<rparr>) \<and>
   JList [createDesiredTagImmutability (rule_for ''old'') (JInt 1)] \<noteq>
     JList (createDesiredTagImmutabilityList (protect [''new'']) (JInt 1)) \<and>
   HarborTagImmutabilityModule scripted (protect [''new'']) False
      [ok_json (JList [library]), ok_json (JList [listed 3 ''old'']), ok_empty, ok_empty,
       ok_json (JList [listed 3 ''old''])] =
     (Exit \<lparr>changed = False, diff = None, retention_policy = None\<rparr>,
      \<lparr>world = [],
       issued = [get_request (Projects ''library''), get_request (ImmutableTagRules (JInt 1)),
                 post_request (ImmutableTagRules (JInt 1))
                   (createDesiredTagImmutability (rule_for ''new'') (JInt 1)),
                 delete_request (ImmutableTagRule (JInt 1) (JInt 3)),
                 get_request (ImmutableTagRules (JInt 1))]\<rparr>) \<and>
   HarborRetentionModule scripted keep_ten False
      [ok_json (JList [library]), ok_json listed_policy, ok_empty,
       ok_json (createDesiredRetentionPolicy keep_ten (JInt 1))] =
     (Exit \<lparr>changed = True,
            diff = Some (listed_policy, createDesiredRetentionPolicy keep_ten (JInt 1)),
            retention_policy = None\<rparr>,
      \<lparr>world = [],
       issued = [get_request (Projects ''library''), get_request (Retention (JStr ''7'')),
                 put_request (Retention (JStr ''7'')) (createDesiredRetentionPolicy keep_ten (JInt 1)),
                 get_request (Retention (JStr ''7''))]\<rparr>) \<and>
   HarborTagImmutabilityModule scripted (protect [''new'']) False
      [ok_json (JList [library]), ok_json (JList [listed 3 ''old'']), ok_empty, ok_empty,
       ok_json (JList [listed 4 ''new''])] =
     (Exit \<lparr>changed = True,
            diff = Some (JList [createDesiredTagImmutability (rule_for ''old'') (JInt 1)],
                         JList [createDesiredTagImmutability (rule_for ''new'') (JInt 1)]),
            retention_policy = None\<rparr>,
      \<lparr>world = [],
       issued = [get_request (Projects ''library''), get_request (ImmutableTagRules (JInt 1)),
                 post_request (ImmutableTagRules (JInt 1))
                   (createDesiredTagImmutability (rule_for ''new'') (JInt 1)),
                 delete_request (ImmutableTagRule (JInt 1) (JInt 3)),
                 get_request (ImmutableTagRules (JInt 1))]\<rparr>)"
proof -
  let ?desired = "createDesiredRetentionPolicy keep_ten (JInt 1)"
  let ?st = "\<lparr>world = [ok_empty, ok_json listed_policy],
       issued = [get_request (Projects ''library''), get_request (Retention (JStr ''7''))]\<rparr>"
  let ?st' = "\<lparr>world = [],
       issued = [get_request (Projects ''library''), get_request (Retention (JStr ''7'')),
                 put_request (Retention (JStr ''7'')) ?desired,
                 get_request (Retention (JStr ''7''))]\<rparr>"
  have r1: "retention_current scripted keep_ten
      (start [ok_json (JList [library]), ok_json listed_policy, ok_empty, ok_json listed_policy]) =
     (Inr (JInt 1, Some (JStr ''7'', listed_policy)), ?st)"
    by code_simp
  have r2: "listed_policy \<noteq> ?desired" by code_simp
  have r3: "scripted (put_request (Retention (JStr ''7'')) ?desired) (world ?st) =
              (ok_empty, [ok_json listed_policy])"
    by simp
  have r4: "status_code ok_empty = 200" by (simp add: ok_empty_def)
  have r5: "getRetentionPolicy scripted (JStr ''7'')
              \<lparr>world = [ok_json listed_policy],
               issued = issued ?st @ [put_request (Retention (JStr ''7'')) ?desired]\<rparr> =
            (Inr (ok_json listed_policy), ?st')"
    by code_simp
  have r6: "json_body (ok_json listed_policy) = Some listed_policy" by (simp add: ok_json_def)
  let ?old = "createDesiredTagImmutability (rule_for ''old'') (JInt 1)"
  let ?new = "createDesiredTagImmutability (rule_for ''new'') (JInt 1)"
  let ?tdesired = "createDesiredTagImmutabilityList (protect [''new'']) (JInt 1)"
  let ?t1 = "\<lparr>world = [ok_empty, ok_empty, ok_json (JList [listed 3 ''old''])],
       issued = [get_request (Projects ''library''), get_request (ImmutableTagRules (JInt 1))]\<rparr>"
  let ?t2 = "\<lparr>world = [ok_empty, ok_json (JList [listed 3 ''old''])],
       issued = [get_request (Projects ''library''), get_request (ImmutableTagRules (JInt 1)),
                 post_request (ImmutableTagRules (JInt 1)) ?new]\<rparr>"
  let ?t3 = "\<lparr>world = [ok_json (JList [listed 3 ''old''])],
       issued = [get_request (Projects ''library''), get_request (ImmutableTagRules (JInt 1)),
                 post_request (ImmutableTagRules (JInt 1)) ?new,
                 delete_request (ImmutableTagRule (JInt 1) (JInt 3))]\<rparr>"
  let ?t4 = "\<lparr>world = [],
       issued = [get_request (Projects ''library''), get_request (ImmutableTagRules (JInt 1)),
                 post_request (ImmutableTagRules (JInt 1)) ?new,
                 delete_request (ImmutableTagRule (JInt 1) (JInt 3)),
                 get_request (ImmutableTagRules (JInt 1))]\<rparr>"
  have t1: "tag_current scripted (protect [''new''])
      (start [ok_json (JList [library]), ok_json (JList [listed 3 ''old'']), ok_empty, ok_empty,
              ok_json (JList [listed 3 ''old''])]) =
     (Inr (JInt 1, JList [?old], [JInt 3]), ?t1)"
    by code_simp
  have t2: "JList [?old] \<noteq> JList ?tdesired" by code_simp
  have t3: "tag_immutabilities_to_add ?tdesired (JList [?old]) = Inr [?new]" by code_simp
  have t4: "createTagImmutabilities scripted [?new] (JInt 1) ?t1 = (Inr (), ?t2)" by code_simp
  have t5: "to_delete_ids [JInt 3] (tag_immutabilities_to_delete_keys ?tdesired (JList [?old])) = [JInt 3]"
    by code_simp
  have t6: "deleteTagImmutabilities scripted [JInt 3] (JInt 1) ?t2 = (Inr (), ?t3)" by code_simp
  have t7: "fetch_formatted scripted (JInt 1) ?t3 = (Inr (JList [?old], [JInt 3]), ?t4)" by code_simp
  note inst = changed_is_what_the_refetch_shows
      [of scripted keep_ten
          "[ok_json (JList [library]), ok_json listed_policy, ok_empty, ok_json listed_policy]"
          "JInt 1" "JStr ''7''" listed_policy ?st ok_empty "[ok_json listed_policy]"
          "ok_json listed_policy" ?st' listed_policy
          "protect [''new'']"
          "[ok_json (JList [library]), ok_json (JList [listed 3 ''old'']), ok_empty, ok_empty,
            ok_json (JList [listed 3 ''old''])]"
          "JInt 1" "JList [?old]" "[JInt 3]" ?t1 "[?new]" ?t2 ?t3 "JList [?old]" "[JInt 3]" ?t4]
  have R: "HarborRetentionModule scripted keep_ten False
      [ok_json (JList [library]), ok_json listed_policy, ok_empty, ok_json listed_policy] =
     (Exit \<lparr>changed = False, diff = None, retention_policy = None\<rparr>, ?st')"
    using inst r1 r2 r3 r4 r5 r6 by simp
  have T: "HarborTagImmutabilityModule scripted (protect [''new'']) False
      [ok_json (JList [library]), ok_json (JList [listed 3 ''old'']), ok_empty, ok_empty,
       ok_json (JList [listed 3 ''old''])] =
     (Exit \<lparr>changed = False, diff = None, retention_policy = None\<rparr>, ?t4)"
    using inst t1 t2 t3 t4 t5 t6 t7 by simp
  let ?wr2 = "[ok_json (JList [library]), ok_json listed_policy, ok_empty, ok_json ?desired]"
  let ?st2 = "\<lparr>world = [ok_empty, ok_json ?desired],
       issued = [get_request (Projects ''library''), get_request (Retention (JStr ''7''))]\<rparr>"
  have u1: "retention_current scripted keep_ten (start ?wr2) =
              (Inr (JInt 1, Some (JStr ''7'', listed_policy)), ?st2)"
    by code_simp
  have u3: "scripted (put_request (Retention (JStr ''7'')) ?desired) (world ?st2) =
              (ok_empty, [ok_json ?desired])"
    by simp
  have u5: "getRetentionPolicy scripted (JStr ''7'')
              \<lparr>world = [ok_json ?desired],
               issued = issued ?st2 @ [put_request (Retention (JStr ''7'')) ?desired]\<rparr> =
            (Inr (ok_json ?desired), ?st')"
    by code_simp
  have u6: "json_body (ok_json ?desired) = Some ?desired" by (simp add: ok_json_def)
  note inst2 = changed_is_what_the_refetch_shows
      [of scripted keep_ten ?wr2 "JInt 1" "JStr ''7''" listed_policy ?st2 ok_empty
          "[ok_json ?desired]" "ok_json ?desired" ?st' ?desired
          "protect [''new'']"
          "[ok_json (JList [library]), ok_json (JList [listed 3 ''old'']), ok_empty, ok_empty,
            ok_json (JList [listed 4 ''new''])]"
          "JInt 1" "JList [?old]" "[JInt 3]"
          "\<lparr>world = [ok_empty, ok_empty, ok_json (JList [listed 4 ''new''])],
            issued = [get_request (Projects ''library''), get_request (ImmutableTagRules (JInt 1))]\<rparr>"
          "[?new]"
          "\<lparr>world = [ok_empty, ok_json (JList [listed 4 ''new''])],
            issued = [get_request (Projects ''library''), get_request (ImmutableTagRules (JInt 1)),
                 post_request (ImmutableTagRules (JInt 1)) ?new]\<rparr>"
          "\<lparr>world = [ok_json (JList [listed 4 ''new''])],
            issued = [get_request (Projects ''library''), get_request (ImmutableTagRules (JInt 1)),
                 post_request (ImmutableTagRules (JInt 1)) ?new,
                 delete_request (ImmutableTagRule (JInt 1) (JInt 3))]\<rparr>"
          "JList [?new]" "[JInt 4]" ?t4]
  have v1: "tag_current scripted (protect [''new''])
      (start [ok_json (JList [library]), ok_json (JList [listed 3 ''old'']), ok_empty, ok_empty,
              ok_json (JList [listed 4 ''new''])]) =
     (Inr (JInt 1, JList [?old], [JInt 3]),
      \<lparr>world = [ok_empty, ok_empty, ok_json (JList [listed 4 ''new''])],
       issued = [get_request (Projects ''library''), get_request (ImmutableTagRules (JInt 1))]\<rparr>)"
    by code_simp
  have v4: "createTagImmutabilities scripted [?new] (JInt 1)
      \<lparr>world = [ok_empty, ok_empty, ok_json (JList [listed 4 ''new''])],
       issued = [get_request (Projects ''library''), get_request (ImmutableTagRules (JInt 1))]\<rparr> =
     (Inr (),
      \<lparr>world = [ok_empty, ok_json (JList [listed 4 ''new''])],
       issued = [get_request (Projects ''library''), get_request (ImmutableTagRules (JInt 1)),
                 post_request (ImmutableTagRules (JInt 1)) ?new]\<rparr>)"
    by code_simp
  have v6: "deleteTagImmutabilities scripted [JInt 3] (JInt 1)
      \<lparr>world = [ok_empty, ok_json (JList [listed 4 ''new''])],
       issued = [get_request (Projects ''library''), get_request (ImmutableTagRules (JInt 1)),
                 post_request (ImmutableTagRules (JInt 1)) ?new]\<rparr> =
     (Inr (),
      \<lparr>world = [ok_json (JList [listed 4 ''new''])],
       issued = [get_request (Projects ''library''), get_request (ImmutableTagRules (JInt 1)),
                 post_request (ImmutableTagRules (JInt 1)) ?new,
                 delete_request (ImmutableTagRule (JInt 1) (JInt 3))]\<rparr>)"
    by code_simp
  have v7: "fetch_formatted scripted (JInt 1)
      \<lparr>world = [ok_json (JList [listed 4 ''new''])],
       issued = [get_request (Projects ''library''), get_request (ImmutableTagRules (JInt 1)),
                 post_request (ImmutableTagRules (JInt 1)) ?new,
                 delete_request (ImmutableTagRule (JInt 1) (JInt 3))]\<rparr> =
     (Inr (JList [?new], [JInt 4]), ?t4)"
    by code_simp
  have v8: "JList [?old] \<noteq> JList [?new]" by code_simp
  have R2: "HarborRetentionModule scripted keep_ten False ?wr2 =
     (Exit \<lparr>changed = True, diff = Some (listed_policy, ?desired), retention_policy = None\<rparr>, ?st')"
    using inst2 u1 r2 u3 r4 u5 u6 by simp
  have T2: "HarborTagImmutabilityModule scripted (protect [''new'']) False
      [ok_json (JList [library]), ok_json (JList [listed 3 ''old'']), ok_empty, ok_empty,
       ok_json (JList [listed 4 ''new''])] =
     (Exit \<lparr>changed = True, diff = Some (JList [?old], JList [?new]), retention_policy = None\<rparr>, ?t4)"
    using inst2 v1 t2 t3 v4 t5 v6 v7 v8 by simp
  from r1 r2 r4 r6 R t1 t2 T R2 T2 show ?thesis by simp
qed

lemma issues_errorHandlingPostOrPutRequest: "issues P (errorHandlingPostOrPutRequest r)"
  by (simp add: errorHandlingPostOrPutRequest_def issues_return issues_stop)

lemma issues_getRetentionPolicy: "issues (\<lambda>_. True) (getRetentionPolicy srv rid)"
  unfolding getRetentionPolicy_def
  by (intro issues_intros issues_True_requests) (simp add: issues_return issues_stop)

lemma retention_update_issues_put:
  assumes "force p \<or> before0 \<noteq> desired"
  shows "\<exists>rest. issued (snd (retention_update srv p False desired rid before0 st)) =
           issued st @ put_request (Retention rid) desired # rest"
proof -
  have "retention_update srv p False desired rid before0 st =
          seq (send srv (put_request (Retention rid) desired))
            (\<lambda>set_request.
               seq (errorHandlingPostOrPutRequest set_request) (\<lambda>_.
               seq (getRetentionPolicy srv rid) (\<lambda>after_request.
               seq (json_of after_request) (\<lambda>after.
                 if before0 \<noteq> after then return (setChanges before0 after result0)
                 else return result0)))) st"
    using assms by (auto simp: retention_update_def requests_put_def)
  moreover have "\<exists>rest. issued (snd (seq (send srv (put_request (Retention rid) desired))
            (\<lambda>set_request.
               seq (errorHandlingPostOrPutRequest set_request) (\<lambda>_.
               seq (getRetentionPolicy srv rid) (\<lambda>after_request.
               seq (json_of after_request) (\<lambda>after.
                 if before0 \<noteq> after then return (setChanges before0 after result0)
                 else return result0)))) st)) =
           issued st @ put_request (Retention rid) desired # rest"
    by (rule issued_seq_send)
       (auto intro!: issues_intros issues_errorHandlingPostOrPutRequest issues_getRetentionPolicy)
  ultimately show ?thesis by simp
qed

text \<open>
  C4, as amended. With \<open>force\<close> the equality test is skipped and the write path runs: in
  check mode the run reports the change; in apply mode the PUT of the desired policy is
  the request that follows the fetch, also when the fetched policy equals the desired
  one. In apply mode the flag reported is \<open>changed = True\<close> exactly when the policy
  fetched after the PUT differs from the one fetched before it.
\<close>

theorem force_runs_the_write_path:
  "force p \<and> retention_current srv p (start w) = (Inr (pid, Some (rid, before0)), st) \<longrightarrow>
     HarborRetentionModule srv p True w =
       (Exit \<lparr>changed = True, diff = Some (before0, createDesiredRetentionPolicy p pid),
              retention_policy = None\<rparr>, st) \<and>
     (\<exists>rest. issued (snd (HarborRetentionModule srv p False w)) =
        issued st @ put_request (Retention rid) (createDesiredRetentionPolicy p pid) # rest) \<and>
     (\<forall>presp w1 aresp st' after.
        srv (put_request (Retention rid) (createDesiredRetentionPolicy p pid)) (world st) =
          (presp, w1) \<and>
        (status_code presp = 200 \<or> status_code presp = 201) \<and>
        getRetentionPolicy srv rid
          \<lparr>world = w1,
           issued = issued st @ [put_request (Retention rid) (createDesiredRetentionPolicy p pid)]\<rparr> =
          (Inr aresp, st') \<and>
        json_body aresp = Some after \<longrightarrow>
        HarborRetentionModule srv p False w =
          (Exit \<lparr>changed = (before0 \<noteq> after),
                 diff = (if before0 \<noteq> after then Some (before0, after) else None),
                 retention_policy = None\<rparr>, st'))"
proof (intro impI, elim conjE, intro conjI allI impI)
  let ?desired = "createDesiredRetentionPolicy p pid"
  assume f: "force p"
    and c: "retention_current srv p (start w) = (Inr (pid, Some (rid, before0)), st)"
  show "HarborRetentionModule srv p True w =
       (Exit \<lparr>changed = True, diff = Some (before0, ?desired), retention_policy = None\<rparr>, st)"
    using f c by (simp add: HarborRetentionModule_def retention_body_def run_module_seq_Inr
        retention_update_def return_def setChanges_def result0_def)
  have "snd (HarborRetentionModule srv p False w) =
          snd (retention_update srv p False ?desired rid before0 st)"
    using c by (simp add: HarborRetentionModule_def retention_body_def snd_run_module seq_def)
  then show "\<exists>rest. issued (snd (HarborRetentionModule srv p False w)) =
        issued st @ put_request (Retention rid) ?desired # rest"
    using retention_update_issues_put[of p before0 ?desired srv rid st] f by simp
  fix presp w1 aresp st' after
  assume h: "srv (put_request (Retention rid) ?desired) (world st) = (presp, w1) \<and>
        (status_code presp = 200 \<or> status_code presp = 201) \<and>
        getRetentionPolicy srv rid
          \<lparr>world = w1, issued = issued st @ [put_request (Retention rid) ?desired]\<rparr> =
          (Inr aresp, st') \<and>
        json_body aresp = Some after"
  have "retention_update srv p False ?desired rid before0 st =
           (Inr (if before0 \<noteq> after then setChanges before0 after result0 else result0), st')"
    using retention_update_apply[of p before0 ?desired srv rid st presp w1 aresp st' after] f h
    by blast
  then show "HarborRetentionModule srv p False w =
          (Exit \<lparr>changed = (before0 \<noteq> after),
                 diff = (if before0 \<noteq> after then Some (before0, after) else None),
                 retention_policy = None\<rparr>, st')"
    using c by (simp add: HarborRetentionModule_def retention_body_def run_module_seq_Inr
        setChanges_def result0_def)
qed

text \<open>
  C4, as stated, fails in apply mode: the fetched policy equals the desired one, force is
  set, the PUT is issued and succeeds, the policy fetched afterwards is the same, and the
  run reports \<open>changed = False\<close>.
\<close>

theorem forced_run_reports_unchanged:
  "force keep_ten_forced \<and>
   HarborRetentionModule scripted keep_ten_forced False
      [ok_json (JList [library]), ok_json (createDesiredRetentionPolicy keep_ten_forced (JInt 1)),
       ok_empty, ok_json (createDesiredRetentionPolicy keep_ten_forced (JInt 1))] =
     (Exit \<lparr>changed = False, diff = None, retention_policy = None\<rparr>,
      \<lparr>world = [],
       issued = [get_request (Projects ''library''), get_request (Retention (JStr ''7'')),
                 put_request (Retention (JStr ''7''))
                   (createDesiredRetentionPolicy keep_ten_forced (JInt 1)),
                 get_request (Retention (JStr ''7''))]\<rparr>)"
  by code_simp

theorem force_runs_the_write_path_witness:
  "force keep_ten_forced \<and>
   retention_current scripted keep_ten_forced
      (start [ok_json (JList [library]), ok_json (createDesiredRetentionPolicy keep_ten_forced (JInt 1)),
              ok_empty, ok_json listed_policy]) =
     (Inr (JInt 1, Some (JStr ''7'', createDesiredRetentionPolicy keep_ten_forced (JInt 1))),
      \<lparr>world = [ok_empty, ok_json listed_policy],
       issued = [get_request (Projects ''library''), get_request (Retention (JStr ''7''))]\<rparr>) \<and>
   status_code ok_empty = 200 \<and>
   json_body (ok_json listed_policy) = Some listed_policy \<and>
   HarborRetentionModule scripted keep_ten_forced True
      [ok_json (JList [library]), ok_json (createDesiredRetentionPolicy keep_ten_forced (JInt 1)),
       ok_empty, ok_json listed_policy] =
     (Exit \<lparr>changed = True,
            diff = Some (createDesiredRetentionPolicy keep_ten_forced (JInt 1),
                         createDesiredRetentionPolicy keep_ten_forced (JInt 1)),
            retention_policy = None\<rparr>,
      \<lparr>world = [ok_empty, ok_json listed_policy],
       issued = [get_request (Projects ''library''), get_request (Retention (JStr ''7''))]\<rparr>) \<and>
   HarborRetentionModule scripted keep_ten_forced False
      [ok_json (JList [library]), ok_json (createDesiredRetentionPolicy keep_ten_forced (JInt 1)),
       ok_empty, ok_json listed_policy] =
     (Exit \<lparr>changed = True,
            diff = Some (createDesiredRetentionPolicy keep_ten_forced (JInt 1), listed_policy),
            retention_policy = None\<rparr>,
      \<lparr>world = [],
       issued = [get_request (Projects ''library''), get_request (Retention (JStr ''7'')),
                 put_request (Retention (JStr ''7''))
                   (createDesiredRetentionPolicy keep_ten_forced (JInt 1)),
                 get_request (Retention (JStr ''7''))]\<rparr>)"
proof -
  let ?desired = "createDesiredRetentionPolicy keep_ten_forced (JInt 1)"
  let ?w = "[ok_json (JList [library]), ok_json ?desired, ok_empty, ok_json listed_policy]"
  let ?st = "\<lparr>world = [ok_empty, ok_json listed_policy],
       issued = [get_request (Projects ''library''), get_request (Retention (JStr ''7''))]\<rparr>"
  let ?st' = "\<lparr>world = [],
       issued = [get_request (Projects ''library''), get_request (Retention (JStr ''7'')),
                 put_request (Retention (JStr ''7'')) ?desired,
                 get_request (Retention (JStr ''7''))]\<rparr>"
  have f: "force keep_ten_forced" by (simp add: keep_ten_forced_def)
  have c: "retention_current scripted keep_ten_forced (start ?w) =
             (Inr (JInt 1, Some (JStr ''7'', ?desired)), ?st)"
    by code_simp
  have s: "scripted (put_request (Retention (JStr ''7'')) ?desired) (world ?st) =
             (ok_empty, [ok_json listed_policy])"
    by simp
  have ok: "status_code ok_empty = 200" by (simp add: ok_empty_def)
  have g: "getRetentionPolicy scripted (JStr ''7'')
             \<lparr>world = [ok_json listed_policy],
              issued = issued ?st @ [put_request (Retention (JStr ''7'')) ?desired]\<rparr> =
           (Inr (ok_json listed_policy), ?st')"
    by code_simp
  have j: "json_body (ok_json listed_policy) = Some listed_policy" by (simp add: ok_json_def)
  have n: "?desired \<noteq> listed_policy" by code_simp
  note inst = force_runs_the_write_path
      [of keep_ten_forced scripted ?w "JInt 1" "JStr ''7''" ?desired ?st]
  have A: "HarborRetentionModule scripted keep_ten_forced True ?w =
     (Exit \<lparr>changed = True, diff = Some (?desired, ?desired), retention_policy = None\<rparr>, ?st)"
    using inst f c by blast
  have "HarborRetentionModule scripted keep_ten_forced False ?w =
          (Exit \<lparr>changed = (?desired \<noteq> listed_policy),
                 diff = (if ?desired \<noteq> listed_policy then Some (?desired, listed_policy) else None),
                 retention_policy = None\<rparr>, ?st')"
    using inst f c s ok g j by blast
  then have B: "HarborRetentionModule scripted keep_ten_forced False ?w =
     (Exit \<lparr>changed = True, diff = Some (?desired, listed_policy), retention_policy = None\<rparr>, ?st')"
    using n by simp
  from f c ok j A B show ?thesis by simp
qed

lemma scan_writes_need_delta:
  assumes "writes (snd (HarborScanAllScheduleModule srv sp cm ws)) \<noteq> []"
  shows "\<not> cm \<and>
         (\<exists>before0 st. getSchedule srv (start ws) = (Inr before0, st) \<and>
            constructDesired (schedule_cron sp) (scan_type sp) \<noteq> before0)"
proof -
  have cm: "\<not> cm"
    using assms run_module_reads_only[OF reads_only_scan_check, of srv sp ws]
    by (cases cm) (auto simp: HarborScanAllScheduleModule_def)
  obtain v st where g: "getSchedule srv (start ws) = (v, st)"
    by (cases "getSchedule srv (start ws)")
  have w: "writes st = []"
    using reads_only_startD[OF reads_only_getSchedule g] .
  show ?thesis
  proof (cases v)
    case (Inl out)
    with g w assms show ?thesis
      by (simp add: HarborScanAllScheduleModule_def scan_body_def Let_def run_module_seq_Inl)
  next
    case (Inr before0)
    show ?thesis
    proof (cases "constructDesired (schedule_cron sp) (scan_type sp) = before0")
      case True
      with g w Inr assms show ?thesis
        by (simp add: HarborScanAllScheduleModule_def scan_body_def Let_def run_module_seq_Inr
            return_def)
    next
      case False
      with g Inr cm show ?thesis by blast
    qed
  qed
qed

lemma retention_writes_need_delta:
  assumes "writes (snd (HarborRetentionModule srv rp cm wr)) \<noteq> []"
  shows "\<not> cm \<and>
         (\<exists>pid current st. retention_current srv rp (start wr) = (Inr (pid, current), st) \<and>
            (\<forall>rid before0. current = Some (rid, before0) \<longrightarrow>
               force rp \<or> before0 \<noteq> createDesiredRetentionPolicy rp pid))"
proof -
  have cm: "\<not> cm"
    using assms run_module_reads_only[OF reads_only_retention_check, of srv rp wr]
    by (cases cm) (auto simp: HarborRetentionModule_def)
  obtain v st where g: "retention_current srv rp (start wr) = (v, st)"
    by (cases "retention_current srv rp (start wr)")
  have w: "writes st = []"
    using reads_only_startD[OF reads_only_retention_current g] .
  show ?thesis
  proof (cases v)
    case (Inl out)
    with g w assms show ?thesis
      by (simp add: HarborRetentionModule_def retention_body_def run_module_seq_Inl)
  next
    case (Inr pc)
    obtain pid current where pc: "pc = (pid, current)" by (cases pc)
    have "force rp \<or> before0 \<noteq> createDesiredRetentionPolicy rp pid"
      if c: "current = Some (rid, before0)" for rid before0
    proof (rule ccontr)
      assume "\<not> (force rp \<or> before0 \<noteq> createDesiredRetentionPolicy rp pid)"
      with g w Inr pc c assms show False
        by (simp add: HarborRetentionModule_def retention_body_def run_module_seq_Inr
            retention_update_def stop_def)
    qed
    with g Inr pc cm show ?thesis by blast
  qed
qed

lemma tag_apply_nothing_to_do:
  assumes "tag_immutabilities_to_add desired before0 = Inr []"
    and "to_delete_ids ids (tag_immutabilities_to_delete_keys desired before0) = []"
  shows "reads_only (tag_apply srv project_id desired before0 ids)"
  unfolding tag_apply_def using assms
  by (auto simp: attempt_def intro!: reads_only_intros reads_only_fetch_formatted
      split: prod.splits)

lemma tag_apply_raises:
  assumes "tag_immutabilities_to_add desired before0 = Inl e"
  shows "tag_apply srv project_id desired before0 ids = stop (Raise e)"
  unfolding tag_apply_def using assms by (simp add: attempt_def)

lemma tag_writes_need_delta:
  assumes "writes (snd (HarborTagImmutabilityModule srv tp cm wt)) \<noteq> []"
  shows "\<not> cm \<and>
         (\<exists>pid before0 ids st adds.
            tag_current srv tp (start wt) = (Inr (pid, before0, ids), st) \<and>
            before0 \<noteq> JList (createDesiredTagImmutabilityList tp pid) \<and>
            tag_immutabilities_to_add (createDesiredTagImmutabilityList tp pid) before0 = Inr adds \<and>
            (adds \<noteq> [] \<or>
             to_delete_ids ids
               (tag_immutabilities_to_delete_keys (createDesiredTagImmutabilityList tp pid) before0)
               \<noteq> []))"
proof -
  have cm: "\<not> cm"
    using assms run_module_reads_only[OF reads_only_tag_check, of srv tp wt]
    by (cases cm) (auto simp: HarborTagImmutabilityModule_def)
  obtain v st where g: "tag_current srv tp (start wt) = (v, st)"
    by (cases "tag_current srv tp (start wt)")
  have w: "writes st = []"
    using reads_only_startD[OF reads_only_tag_current g] .
  show ?thesis
  proof (cases v)
    case (Inl out)
    with g w assms show ?thesis
      by (simp add: HarborTagImmutabilityModule_def tag_body_def run_module_seq_Inl)
  next
    case (Inr pbi)
    obtain pid before0 ids where pbi: "pbi = (pid, before0, ids)" by (cases pbi)
    let ?desired = "createDesiredTagImmutabilityList tp pid"
    let ?dels = "to_delete_ids ids (tag_immutabilities_to_delete_keys ?desired before0)"
    have run: "snd (HarborTagImmutabilityModule srv tp cm wt) =
                 snd (tag_reconcile srv cm pid ?desired before0 ids st)"
      using g Inr pbi by (simp add: HarborTagImmutabilityModule_def tag_body_def snd_run_module seq_def)
    have ne: "before0 \<noteq> JList ?desired"
    proof
      assume "before0 = JList ?desired"
      with run w assms show False by (simp add: tag_reconcile_def stop_def)
    qed
    have ap: "snd (HarborTagImmutabilityModule srv tp cm wt) =
                snd (tag_apply srv pid ?desired before0 ids st)"
      using run ne cm by (simp add: tag_reconcile_def)
    show ?thesis
    proof (cases "tag_immutabilities_to_add ?desired before0")
      case (Inl e)
      with ap w assms show ?thesis by (simp add: tag_apply_raises stop_def)
    next
      case adds: (Inr adds)
      have "adds \<noteq> [] \<or> ?dels \<noteq> []"
      proof (rule ccontr)
        assume "\<not> (adds \<noteq> [] \<or> ?dels \<noteq> [])"
        with adds have "reads_only (tag_apply srv pid ?desired before0 ids)"
          by (simp add: tag_apply_nothing_to_do)
        then have "writes (snd (tag_apply srv pid ?desired before0 ids st)) = writes st"
          by (simp add: reads_only_def)
        with ap w assms show False by simp
      qed
      with g Inr pbi cm ne adds show ?thesis by blast
    qed
  qed
qed

text \<open>
  C7. A run that issued a POST, PUT or DELETE was no check-mode run, had fetched the
  current state, and the comparison with the desired state had failed: the fetched
  schedule differed from the desired one; the project had no retention policy yet, or
  force was set, or the fetched policy differed from the desired one; the formatted rule
  list differed from the desired list and there was a rule to create or an identifier to
  delete.
\<close>

theorem writes_only_after_failed_comparison:
  "(writes (snd (HarborScanAllScheduleModule srv sp cm ws)) \<noteq> [] \<longrightarrow>
      \<not> cm \<and>
      (\<exists>before0 st. getSchedule srv (start ws) = (Inr before0, st) \<and>
         constructDesired (schedule_cron sp) (scan_type sp) \<noteq> before0)) \<and>
   (writes (snd (HarborRetentionModule srv rp cm wr)) \<noteq> [] \<longrightarrow>
      \<not> cm \<and>
      (\<exists>pid current st. retention_current srv rp (start wr) = (Inr (pid, current), st) \<and>
         (\<forall>rid before0. current = Some (rid, before0) \<longrightarrow>
            force rp \<or> before0 \<noteq> createDesiredRetentionPolicy rp pid))) \<and>
   (writes (snd (HarborTagImmutabilityModule srv tp cm wt)) \<noteq> [] \<longrightarrow>
      \<not> cm \<and>
      (\<exists>pid before0 ids st adds.
         tag_current srv tp (start wt) = (Inr (pid, before0, ids), st) \<and>
         before0 \<noteq> JList (createDesiredTagImmutabilityList tp pid) \<and>
         tag_immutabilities_to_add (createDesiredTagImmutabilityList tp pid) before0 = Inr adds \<and>
         (adds \<noteq> [] \<or>
          to_delete_ids ids
            (tag_immutabilities_to_delete_keys (createDesiredTagImmutabilityList tp pid) before0)
            \<noteq> [])))"
  using scan_writes_need_delta[of srv sp cm ws] retention_writes_need_delta[of srv rp cm wr]
    tag_writes_need_delta[of srv tp cm wt]
  by blast

theorem writes_only_after_failed_comparison_witness:
  "writes (snd (HarborScanAllScheduleModule scripted weekly False
      [ok_empty, ok_empty, ok_json (constructDesired ''0 0 0 * * 0'' ''Custom'')])) \<noteq> [] \<and>
   (\<exists>before0 st. getSchedule scripted
        (start [ok_empty, ok_empty, ok_json (constructDesired ''0 0 0 * * 0'' ''Custom'')]) =
        (Inr before0, st) \<and>
      constructDesired (schedule_cron weekly) (scan_type weekly) \<noteq> before0) \<and>
   writes (snd (HarborRetentionModule scripted keep_ten False
      [ok_json (JList [library]), ok_json listed_policy, ok_empty, ok_json listed_policy])) \<noteq> [] \<and>
   (\<exists>pid current st. retention_current scripted keep_ten
        (start [ok_json (JList [library]), ok_json listed_policy, ok_empty, ok_json listed_policy]) =
        (Inr (pid, current), st) \<and>
      (\<forall>rid before0. current = Some (rid, before0) \<longrightarrow>
         force keep_ten \<or> before0 \<noteq> createDesiredRetentionPolicy keep_ten pid)) \<and>
   writes (snd (HarborTagImmutabilityModule scripted (protect [''new'']) False
      [ok_json (JList [library]), ok_json (JList [listed 3 ''old'']), ok_empty, ok_empty,
       ok_json (JList [listed 3 ''old''])])) \<noteq> [] \<and>
   (\<exists>pid before0 ids st adds.
      tag_current scripted (protect [''new''])
        (start [ok_json (JList [library]), ok_json (JList [listed 3 ''old'']), ok_empty, ok_empty,
                ok_json (JList [listed 3 ''old''])]) = (Inr (pid, before0, ids), st) \<and>
      before0 \<noteq> JList (createDesiredTagImmutabilityList (protect [''new'']) pid) \<and>
      tag_immutabilities_to_add (createDesiredTagImmutabilityList (protect [''new'']) pid) before0 =
        Inr adds \<and>
      (adds \<noteq> [] \<or>
       to_delete_ids ids
         (tag_immutabilities_to_delete_keys
            (createDesiredTagImmutabilityList (protect [''new'']) pid) before0) \<noteq> []))"
proof -
  let ?ws = "[ok_empty, ok_empty, ok_json (constructDesired ''0 0 0 * * 0'' ''Custom'')]"
  let ?wr = "[ok_json (JList [library]), ok_json listed_policy, ok_empty, ok_json listed_policy]"
  let ?wt = "[ok_json (JList [library]), ok_json (JList [listed 3 ''old'']), ok_empty, ok_empty,
              ok_json (JList [listed 3 ''old''])]"
  have s: "writes (snd (HarborScanAllScheduleModule scripted weekly False ?ws)) \<noteq> []"
    by code_simp
  have r: "writes (snd (HarborRetentionModule scripted keep_ten False ?wr)) \<noteq> []"
    by code_simp
  have t: "writes (snd (HarborTagImmutabilityModule scripted (protect [''new'']) False ?wt)) \<noteq> []"
    by code_simp
  show ?thesis
    using writes_only_after_failed_comparison
            [of scripted weekly False ?ws keep_ten ?wr "protect [''new'']" ?wt] s r t
    by blast
qed
















end
